theory Spec2Isabelle
  imports Complex_Main "HOL-Library.Char_ord" "HOL-Library.List_Lexorder"
begin

section \<open>incback: an incremental backup wrapper around rsync\<close>

text \<open>
  A shallow embedding of the TypeScript sources \<^verbatim>\<open>exec.ts\<close>, \<^verbatim>\<open>remote-exists.ts\<close>,
  \<^verbatim>\<open>type-guards.ts\<close>, \<^verbatim>\<open>logger.ts\<close>, \<^verbatim>\<open>config.ts\<close>, \<^verbatim>\<open>backup.ts\<close> and \<^verbatim>\<open>index.ts\<close>.

  \<^item> A JavaScript string is a \<^typ>\<open>string\<close>; the texts the program builds are ASCII.
  \<^item> A rejected promise or a thrown \<^verbatim>\<open>Error\<close> is \<open>Inl message\<close>, a resolved promise or a
    normal return is \<open>Inr value\<close>.
  \<^item> Everything outside the process (child processes, the file system, the clock, the
    working directory, the libraries \<^verbatim>\<open>path\<close>, \<^verbatim>\<open>commander\<close> and \<^verbatim>\<open>JSON\<close>) is a field of the
    record \<open>sys\<close> over an abstract world \<open>'w\<close>; every operation that can change the world
    returns the new one, and the functions of the program pass it on.
  \<^item> What the process did is recorded in a trace of events.
\<close>

subsection \<open>Strings\<close>

definition SQ :: string where
  "SQ = [CHR 0x27]"

definition BS :: string where
  "BS = [CHR 0x5C]"

text \<open>The ASCII white space that \<^verbatim>\<open>String.prototype.trim\<close> removes at both ends.\<close>

definition isWhiteSpace :: "char \<Rightarrow> bool" where
  "isWhiteSpace c = (c \<in> set [CHR 0x09, CHR 0x0A, CHR 0x0B, CHR 0x0C, CHR 0x0D, CHR 0x20])"

definition trim :: "string \<Rightarrow> string" where
  "trim s = rev (dropWhile isWhiteSpace (rev (dropWhile isWhiteSpace s)))"

text \<open>Decimal digits, for \<^verbatim>\<open>${code}\<close> and for the fields of a date.\<close>

definition digit :: "nat \<Rightarrow> char" where
  "digit d = char_of (48 + d)"

fun showNat :: "nat \<Rightarrow> string" where
  "showNat n = (if n < 10 then [digit n] else showNat (n div 10) @ [digit (n mod 10)])"

declare showNat.simps [simp del]

definition showInt :: "int \<Rightarrow> string" where
  "showInt i = (if i < 0 then ''-'' @ showNat (nat (- i)) else showNat (nat i))"

text \<open>A template literal prints an absent optional field as \<^verbatim>\<open>undefined\<close>.\<close>

definition tmpl :: "string option \<Rightarrow> string" where
  "tmpl v = (case v of None \<Rightarrow> ''undefined'' | Some s \<Rightarrow> s)"

subsection \<open>The clock: \<^verbatim>\<open>new Date().toISOString()\<close>\<close>

text \<open>
  A \<^verbatim>\<open>Date\<close> holds a time value, the milliseconds since 1970-01-01T00:00:00Z. The
  functions below are those of the ECMAScript specification (Day, DayFromYear,
  YearFromTime, MonthFromTime, DateFromTime, HourFromTime, MinFromTime, SecFromTime,
  msFromTime), by which \<^verbatim>\<open>toISOString\<close> is defined. \<open>YearFromTime t\<close>, the largest year
  that starts at or before \<open>t\<close>, is found by a search downwards from a year that is
  not too small.
\<close>

definition msPerDay :: int where
  "msPerDay = 86400000"

definition Day :: "int \<Rightarrow> int" where
  "Day t = t div msPerDay"

definition TimeWithinDay :: "int \<Rightarrow> int" where
  "TimeWithinDay t = t mod msPerDay"

definition DaysInYear :: "int \<Rightarrow> int" where
  "DaysInYear y =
     (if y mod 4 \<noteq> 0 then 365 else if y mod 100 \<noteq> 0 then 366
      else if y mod 400 \<noteq> 0 then 365 else 366)"

definition DayFromYear :: "int \<Rightarrow> int" where
  "DayFromYear y =
     365 * (y - 1970) + (y - 1969) div 4 - (y - 1901) div 100 + (y - 1601) div 400"

function yearFrom :: "int \<Rightarrow> int \<Rightarrow> int" where
  "yearFrom d y = (if DayFromYear y \<le> d then y else yearFrom d (y - 1))"
  by pat_completeness auto
termination
proof (relation "measure (\<lambda>(d, y). nat (DayFromYear y - d))")
  show "wf (measure (\<lambda>(d, y). nat (DayFromYear y - d)))"
    by simp
next
  fix d y :: int
  assume big: "\<not> DayFromYear y \<le> d"
  define a1 where "a1 = (y - 1 - 1969) div 4"
  define a2 where "a2 = (y - 1969) div 4"
  define b1 where "b1 = (y - 1 - 1901) div 100"
  define b2 where "b2 = (y - 1901) div 100"
  define c1 where "c1 = (y - 1 - 1601) div 400"
  define c2 where "c2 = (y - 1601) div 400"
  have a: "a1 \<le> a2"
    unfolding a1_def a2_def by (rule zdiv_mono1) simp_all
  have "(y - 1901) div 100 \<le> (y - 1 - 1901 + 100) div 100"
    by (rule zdiv_mono1) simp_all
  also have "\<dots> = (y - 1 - 1901) div 100 + 1"
    by (rule div_add_self2) simp
  finally have b: "b2 \<le> b1 + 1"
    unfolding b1_def b2_def .
  have c: "c1 \<le> c2"
    unfolding c1_def c2_def by (rule zdiv_mono1) simp_all
  have e1: "DayFromYear (y - 1) = 365 * (y - 1 - 1970) + a1 - b1 + c1"
    unfolding DayFromYear_def a1_def b1_def c1_def by (rule refl)
  have e2: "DayFromYear y = 365 * (y - 1970) + a2 - b2 + c2"
    unfolding DayFromYear_def a2_def b2_def c2_def by (rule refl)
  have "365 * (y - 1 - 1970) + a1 - b1 + c1 < 365 * (y - 1970) + a2 - b2 + c2"
    using a b c by simp
  then have "DayFromYear (y - 1) < DayFromYear y"
    by (simp only: e1 e2)
  with big show "((d, y - 1), (d, y)) \<in> measure (\<lambda>(d, y). nat (DayFromYear y - d))"
    by simp
qed

declare yearFrom.simps [simp del]

definition YearFromTime :: "int \<Rightarrow> int" where
  "YearFromTime t = yearFrom (Day t) (1970 + max 0 (Day t div 365))"

definition InLeapYear :: "int \<Rightarrow> int" where
  "InLeapYear t = (if DaysInYear (YearFromTime t) = 366 then 1 else 0)"

definition DayWithinYear :: "int \<Rightarrow> int" where
  "DayWithinYear t = Day t - DayFromYear (YearFromTime t)"

text \<open>The month (0 to 11) and the day of the month of day \<open>d\<close> of a year, \<open>l\<close> being 1 in a leap year.\<close>

definition monthOfDay :: "int \<Rightarrow> int \<Rightarrow> int" where
  "monthOfDay l d =
     (if d < 31 then 0 else if d < 59 + l then 1 else if d < 90 + l then 2
      else if d < 120 + l then 3 else if d < 151 + l then 4 else if d < 181 + l then 5
      else if d < 212 + l then 6 else if d < 243 + l then 7 else if d < 273 + l then 8
      else if d < 304 + l then 9 else if d < 334 + l then 10 else 11)"

definition dateOfDay :: "int \<Rightarrow> int \<Rightarrow> int" where
  "dateOfDay l d =
     (let m = monthOfDay l d in
      if m = 0 then d + 1 else if m = 1 then d - 30 else if m = 2 then d - 58 - l
      else if m = 3 then d - 89 - l else if m = 4 then d - 119 - l
      else if m = 5 then d - 150 - l else if m = 6 then d - 180 - l
      else if m = 7 then d - 211 - l else if m = 8 then d - 242 - l
      else if m = 9 then d - 272 - l else if m = 10 then d - 303 - l
      else d - 333 - l)"

definition MonthFromTime :: "int \<Rightarrow> int" where
  "MonthFromTime t = monthOfDay (InLeapYear t) (DayWithinYear t)"

definition DateFromTime :: "int \<Rightarrow> int" where
  "DateFromTime t = dateOfDay (InLeapYear t) (DayWithinYear t)"

definition HourFromTime :: "int \<Rightarrow> int" where
  "HourFromTime t = (t div 3600000) mod 24"

definition MinFromTime :: "int \<Rightarrow> int" where
  "MinFromTime t = (t div 60000) mod 60"

definition SecFromTime :: "int \<Rightarrow> int" where
  "SecFromTime t = (t div 1000) mod 60"

definition msFromTime :: "int \<Rightarrow> int" where
  "msFromTime t = t mod 1000"

text \<open>\<open>zpad w n\<close>: the decimal digits of \<open>n\<close>, padded with zeros to the width \<open>w\<close>.\<close>

fun zpad :: "nat \<Rightarrow> nat \<Rightarrow> string" where
  "zpad 0 n = []"
| "zpad (Suc w) n = zpad w (n div 10) @ [digit (n mod 10)]"

text \<open>
  The year of an ISO string has four digits from 0 to 9999, and otherwise a sign and
  six digits (a time value of a \<^verbatim>\<open>Date\<close> lies within the years -271821 to 275760).
\<close>

definition isoYear :: "int \<Rightarrow> string" where
  "isoYear y =
     (if 0 \<le> y \<and> y \<le> 9999 then zpad 4 (nat y)
      else if y < 0 then ''-'' @ zpad 6 (nat (- y))
      else ''+'' @ zpad 6 (nat y))"

definition toISOString :: "int \<Rightarrow> string" where
  "toISOString t =
     isoYear (YearFromTime t) @ ''-'' @ zpad 2 (nat (MonthFromTime t + 1)) @ ''-'' @
     zpad 2 (nat (DateFromTime t)) @ ''T'' @ zpad 2 (nat (HourFromTime t)) @ '':'' @
     zpad 2 (nat (MinFromTime t)) @ '':'' @ zpad 2 (nat (SecFromTime t)) @ ''.'' @
     zpad 3 (nat (msFromTime t)) @ ''Z''"

subsection \<open>The world outside the process\<close>

text \<open>
  How a child process ended: the \<^verbatim>\<open>error\<close> event with its message (the process could not
  be spawned), or the \<^verbatim>\<open>close\<close> event with the exit code (\<^verbatim>\<open>null\<close> when a signal ended the
  process) after all of stdout and stderr was collected.
\<close>

datatype proc_result =
    SpawnError string
  | Closed "int option" string string

datatype logType = LogT | ErrorT | WarnT

datatype event =
    Spawn string
  | Console logType string
  | StreamWrite string string
  | MkdirSync string
  | OutputHelp

text \<open>
  Values of the dynamic type \<^verbatim>\<open>unknown\<close>: what \<^verbatim>\<open>JSON.parse\<close> and \<^verbatim>\<open>program.opts()\<close> return.
  A number is a real: \<^verbatim>\<open>NaN\<close> and the infinities are not represented.
\<close>

datatype jsval =
    JUndefined
  | JNull
  | JBool bool
  | JNum real
  | JStr string
  | JArr "jsval list"
  | JObj "(string \<times> jsval) list"

record 'w sys =
  spawn :: "string \<Rightarrow> 'w \<Rightarrow> proc_result \<times> 'w"
  existsSync :: "string \<Rightarrow> 'w \<Rightarrow> bool"
  mkdirSync :: "string \<Rightarrow> 'w \<Rightarrow> string option \<times> 'w"
  createWriteStream :: "string \<Rightarrow> 'w \<Rightarrow> string option \<times> 'w"
  readFileSync :: "string \<Rightarrow> 'w \<Rightarrow> string + string"
  clock :: "'w \<Rightarrow> int \<times> 'w"
  cwd :: "'w \<Rightarrow> string"
  argv :: "'w \<Rightarrow> string list"
  pathIsAbsolute :: "string \<Rightarrow> bool"
  pathJoin :: "string \<Rightarrow> string \<Rightarrow> string"
  pathBasename :: "string \<Rightarrow> string"
  pathDirname :: "string \<Rightarrow> string"
  jsonParse :: "string \<Rightarrow> jsval option"
  commanderParse :: "(string \<times> string) list \<Rightarrow> string list \<Rightarrow> int + jsval"
  numberToString :: "real \<Rightarrow> string"
  pathTypeError :: "jsval \<Rightarrow> string"

text \<open>
  \<open>mkdirSync\<close> and \<open>createWriteStream\<close> return \<open>Some message\<close> when they throw;
  \<open>readFileSync\<close> returns \<open>Inl message\<close> when it throws; \<open>clock\<close> is \<^verbatim>\<open>new Date()\<close>, the
  milliseconds since the epoch; \<open>jsonParse\<close> is \<open>None\<close> on a syntax error; \<open>commanderParse\<close>
  takes the declared options and \<^verbatim>\<open>process.argv\<close> and is \<open>Inl status\<close> when Commander itself
  ends the process (status 1 after an error such as an unknown option), and otherwise
  \<open>Inr\<close> of the object that \<^verbatim>\<open>program.opts()\<close> returns. \<open>pathIsAbsolute\<close>, \<open>pathJoin\<close>,
  \<open>pathBasename\<close> and \<open>pathDirname\<close> are the functions of the module \<^verbatim>\<open>path\<close> on strings;
  given a value that is not a string, \<^verbatim>\<open>path.isAbsolute\<close> throws a \<^verbatim>\<open>TypeError\<close>, whose message
  for that value is \<open>pathTypeError\<close>. \<open>numberToString\<close> is the text that a template literal
  prints for a number.
\<close>

subsection \<open>types.ts\<close>

text \<open>
  An optional field of the interface is an \<open>option\<close>; what the record holds when the
  object at run time has a value of another type in an optional field is said with
  \<open>asProgramOptions\<close> below. \<open>logFilePath\<close> and \<open>stream\<close> are the private fields of the
  class \<^verbatim>\<open>Logger\<close>; an open write stream is known by the path it appends to.
\<close>

record ProgramOptions =
  src :: string
  dest :: string
  remoteRole :: "string option"
  remoteUser :: "string option"
  remoteHost :: "string option"
  excludeFrom :: "string option"
  logFile :: "string option"
  backupPrefix :: "string option"
  rsyncOptions :: "string option"

record Logger =
  logFilePath :: "string option"
  stream :: "string option"

record ProgramConfig = ProgramOptions +
  isRemoteSrc :: bool
  isRemoteDest :: bool
  logger :: Logger

text \<open>
  The state of the process: the world, what the process did so far, and the two
  module-level singletons (\<^verbatim>\<open>loggerInstance\<close> of logger.ts, \<^verbatim>\<open>config\<close> of config.ts).
\<close>

record 'w state =
  world :: 'w
  trace :: "event list"
  loggerInstance :: "Logger option"
  configCache :: "ProgramConfig option"

datatype 'a outcome =
    Return 'a
  | Throw string
  | ProcExit int

subsection \<open>exec.ts\<close>

definition executeResult :: "string \<Rightarrow> proc_result \<Rightarrow> string + string" where
  "executeResult command r =
     (case r of
        SpawnError message \<Rightarrow> Inl (''Error executing command \"'' @ command @ ''\": '' @ message)
      | Closed code out err \<Rightarrow>
          if code \<noteq> Some 0 then
            Inl (''Error executing command \"'' @ command @ ''\": '' @
                 (if err \<noteq> [] then err
                  else ''Process exited with code '' @
                       (case code of None \<Rightarrow> ''null'' | Some c \<Rightarrow> showInt c)))
          else if err \<noteq> [] then
            Inl (''Error executing command \"'' @ command @ ''\": '' @ err)
          else Inr (trim out))"

definition executeCommand ::
  "'w sys \<Rightarrow> string \<Rightarrow> 'w state \<Rightarrow> (string + string) \<times> 'w state" where
  "executeCommand sys command s =
     (case spawn sys command (world s) of
        (r, w') \<Rightarrow> (executeResult command r,
                    s\<lparr>world := w', trace := trace s @ [Spawn command]\<rparr>))"

definition escapeShellArg :: "string \<Rightarrow> string" where
  "escapeShellArg arg =
     SQ @ concat (map (\<lambda>c. if [c] = SQ then SQ @ BS @ SQ @ SQ else [c]) arg) @ SQ"

definition sshCommand :: "string \<Rightarrow> string \<Rightarrow> string" where
  "sshCommand destination command =
     ''ssh -o BatchMode=yes -o ConnectTimeout=5 '' @
     escapeShellArg destination @ '' '' @ escapeShellArg command"

definition remoteCommand ::
  "'w sys \<Rightarrow> string \<Rightarrow> ('a ProgramOptions_scheme) \<Rightarrow> bool \<Rightarrow> 'w state
     \<Rightarrow> (string + string) \<times> 'w state" where
  "remoteCommand sys command config throwError s =
     (let remoteUser' = (case remoteUser config of None \<Rightarrow> [] | Some u \<Rightarrow> u);
          remoteHost' = (case remoteHost config of None \<Rightarrow> [] | Some h \<Rightarrow> h)
      in if remoteHost' = [] \<or> remoteUser' = [] then
           (Inl ''remoteCommand requires remoteUser and remoteHost in configuration'', s)
         else
           let destination = remoteUser' @ ''@'' @ remoteHost'
           in (case executeCommand sys (sshCommand destination command) s of
                 (Inr out, s') \<Rightarrow> (Inr out, s')
               | (Inl error, s') \<Rightarrow> if throwError then (Inl error, s') else (Inr [], s')))"

subsection \<open>remote-exists.ts\<close>

definition remoteExistsCmd :: "string \<Rightarrow> string \<Rightarrow> string \<Rightarrow> string" where
  "remoteExistsCmd remoteUser' remoteHost' remotePath =
     ''ssh -o BatchMode=yes -o ConnectTimeout=5 '' @ remoteUser' @ ''@'' @ remoteHost' @
     '' \"test -e '' @ BS @ ''\"'' @ remotePath @ BS @ ''\" && echo exists || echo not_exists\"''"

definition remoteExists ::
  "'w sys \<Rightarrow> string \<Rightarrow> string \<Rightarrow> string \<Rightarrow> 'w state \<Rightarrow> (string + bool) \<times> 'w state" where
  "remoteExists sys remoteUser' remoteHost' remotePath s =
     (case executeCommand sys (remoteExistsCmd remoteUser' remoteHost' remotePath) s of
        (Inr out, s') \<Rightarrow> (Inr (trim out = ''exists''), s')
      | (Inl error, s') \<Rightarrow> (Inr False, s'))"

subsection \<open>logger.ts\<close>

definition logTypeName :: "logType \<Rightarrow> string" where
  "logTypeName lt = (case lt of LogT \<Rightarrow> ''log'' | ErrorT \<Rightarrow> ''error'' | WarnT \<Rightarrow> ''warn'')"

text \<open>
  The constructor of \<^verbatim>\<open>Logger\<close>. An exception of \<^verbatim>\<open>mkdirSync\<close> or \<^verbatim>\<open>createWriteStream\<close> is
  caught, reported on the console and leaves the logger without a stream.
\<close>

definition newLogger :: "'w sys \<Rightarrow> string option \<Rightarrow> 'w state \<Rightarrow> Logger \<times> 'w state" where
  "newLogger sys logFilePath0 s =
     (case logFilePath0 of
        None \<Rightarrow> (\<lparr>logFilePath = None, stream = None\<rparr>, s)
      | Some p0 \<Rightarrow>
          if p0 = [] then (\<lparr>logFilePath = Some p0, stream = None\<rparr>, s)
          else
            let p = (if \<not> pathIsAbsolute sys p0 then pathJoin sys (cwd sys (world s)) p0 else p0);
                failed = (\<lambda>message s'.
                   (\<lparr>logFilePath = Some p, stream = None\<rparr>,
                    s'\<lparr>trace := trace s' @
                       [Console ErrorT (''Logger initialization failed ('' @ p @ ''): '' @ message)]\<rparr>))
            in (case mkdirSync sys (pathDirname sys p) (world s) of
                  (Some message, w1) \<Rightarrow>
                    failed message (s\<lparr>world := w1, trace := trace s @ [MkdirSync (pathDirname sys p)]\<rparr>)
                | (None, w1) \<Rightarrow>
                    (case createWriteStream sys p w1 of
                       (Some message, w2) \<Rightarrow>
                         failed message
                           (s\<lparr>world := w2, trace := trace s @ [MkdirSync (pathDirname sys p)]\<rparr>)
                     | (None, w2) \<Rightarrow>
                         (\<lparr>logFilePath = Some p, stream = Some p\<rparr>,
                          s\<lparr>world := w2, trace := trace s @ [MkdirSync (pathDirname sys p)]\<rparr>))))"

text \<open>The private method \<^verbatim>\<open>_log\<close>, and the three public methods that call it.\<close>

definition logWrite :: "'w sys \<Rightarrow> Logger \<Rightarrow> string \<Rightarrow> logType \<Rightarrow> 'w state \<Rightarrow> 'w state" where
  "logWrite sys lg message lt s =
     (case clock sys (world s) of
        (t, w') \<Rightarrow>
          let timestampedMessage = ''['' @ toISOString t @ ''] '' @ message
          in s\<lparr>world := w',
               trace := trace s @ [Console lt timestampedMessage] @
                 (case stream lg of
                    None \<Rightarrow> []
                  | Some p \<Rightarrow>
                      [StreamWrite p (logTypeName lt @ '' - '' @ timestampedMessage @ [CHR 0x0A])])\<rparr>)"

definition logger_log :: "'w sys \<Rightarrow> Logger \<Rightarrow> string \<Rightarrow> 'w state \<Rightarrow> 'w state" where
  "logger_log sys lg message s = logWrite sys lg message LogT s"

definition logger_error :: "'w sys \<Rightarrow> Logger \<Rightarrow> string \<Rightarrow> 'w state \<Rightarrow> 'w state" where
  "logger_error sys lg message s = logWrite sys lg message ErrorT s"

definition logger_warn :: "'w sys \<Rightarrow> Logger \<Rightarrow> string \<Rightarrow> 'w state \<Rightarrow> 'w state" where
  "logger_warn sys lg message s = logWrite sys lg message WarnT s"

definition getLogger ::
  "'w sys \<Rightarrow> ('a ProgramOptions_scheme) \<Rightarrow> 'w state \<Rightarrow> Logger \<times> 'w state" where
  "getLogger sys config s =
     (case loggerInstance s of
        Some lg \<Rightarrow> (lg, s)
      | None \<Rightarrow>
          (case newLogger sys (logFile config) s of
             (lg, s') \<Rightarrow> (lg, s'\<lparr>loggerInstance := Some lg\<rparr>)))"

subsection \<open>type-guards.ts\<close>

definition typeof :: "jsval \<Rightarrow> string" where
  "typeof v =
     (case v of
        JUndefined \<Rightarrow> ''undefined''
      | JNull \<Rightarrow> ''object''
      | JBool b \<Rightarrow> ''boolean''
      | JNum n \<Rightarrow> ''number''
      | JStr x \<Rightarrow> ''string''
      | JArr vs \<Rightarrow> ''object''
      | JObj kvs \<Rightarrow> ''object'')"

text \<open>Reading a property: \<^verbatim>\<open>undefined\<close> when the object has no such property.\<close>

definition getProp :: "jsval \<Rightarrow> string \<Rightarrow> jsval" where
  "getProp obj k =
     (case obj of
        JObj kvs \<Rightarrow> (case map_of kvs k of None \<Rightarrow> JUndefined | Some v \<Rightarrow> v)
      | _ \<Rightarrow> JUndefined)"

definition isProgramOptions :: "jsval \<Rightarrow> bool" where
  "isProgramOptions obj =
     (if typeof obj \<noteq> ''object'' \<or> obj = JNull then False
      else
        let mandatory = (typeof (getProp obj ''src'') = ''string'' \<and>
                         typeof (getProp obj ''dest'') = ''string'')
        in if \<not> mandatory then False
           else if getProp obj ''remoteRole'' \<noteq> JUndefined \<or>
                   getProp obj ''remoteUser'' \<noteq> JUndefined \<or>
                   getProp obj ''remoteHost'' \<noteq> JUndefined then
             let isRemoteRoleOk = (getProp obj ''remoteRole'' = JStr ''src'' \<or>
                                   getProp obj ''remoteRole'' = JStr ''dest'');
                 isRemoteUserOk = (typeof (getProp obj ''remoteUser'') = ''string'');
                 isRemoteHostOk = (typeof (getProp obj ''remoteHost'') = ''string'')
             in isRemoteRoleOk \<and> isRemoteUserOk \<and> isRemoteHostOk
           else True)"

text \<open>
  What the code does with a value whose type nobody checked: the test \<^verbatim>\<open>if (v)\<close>, and the
  text that a template literal prints for it (an array prints its elements separated by
  commas, \<^verbatim>\<open>null\<close> and \<^verbatim>\<open>undefined\<close> among them as nothing).
\<close>

definition truthy :: "jsval \<Rightarrow> bool" where
  "truthy v =
     (case v of
        JUndefined \<Rightarrow> False
      | JNull \<Rightarrow> False
      | JBool b \<Rightarrow> b
      | JNum n \<Rightarrow> n \<noteq> 0
      | JStr x \<Rightarrow> x \<noteq> []
      | JArr vs \<Rightarrow> True
      | JObj kvs \<Rightarrow> True)"

fun joinComma :: "string list \<Rightarrow> string" where
  "joinComma [] = []"
| "joinComma [x] = x"
| "joinComma (x # y # r) = x @ '','' @ joinComma (y # r)"

primrec jsToString :: "'w sys \<Rightarrow> jsval \<Rightarrow> string" where
  "jsToString sys JUndefined = ''undefined''"
| "jsToString sys JNull = ''null''"
| "jsToString sys (JBool b) = (if b then ''true'' else ''false'')"
| "jsToString sys (JNum n) = numberToString sys n"
| "jsToString sys (JStr x) = x"
| "jsToString sys (JArr vs) =
     joinComma (map (\<lambda>(v, printed). if v = JUndefined \<or> v = JNull then [] else printed)
                    (zip vs (map (jsToString sys) vs)))"
| "jsToString sys (JObj kvs) = ''[object Object]''"

text \<open>
  The object seen at the type \<^verbatim>\<open>ProgramOptions\<close>, as the type predicate of the guard lets
  the callers see it. The guard checks \<^verbatim>\<open>src\<close>, \<^verbatim>\<open>dest\<close> and the three remote fields, which
  are strings where present. The other four fields have the declared type on the compiler's
  word only, and at run time hold whatever the object holds:

    \<^item> \<^verbatim>\<open>backupPrefix\<close> and \<^verbatim>\<open>rsyncOptions\<close> are read in one way only, as
      \<^verbatim>\<open>${config.backupPrefix ?? 'BACKUP-'}\<close> and \<^verbatim>\<open>${config.rsyncOptions ?? 'az'}\<close>:
      \<^verbatim>\<open>undefined\<close> and \<^verbatim>\<open>null\<close> give the default and every other value is printed by the
      template. The field of the record holds the text that the template prints
      (\<open>tmplProp\<close>).

    \<^item> \<^verbatim>\<open>excludeFrom\<close> and \<^verbatim>\<open>logFile\<close> are tested for truthiness and, when truthy, given
      to \<^verbatim>\<open>path.isAbsolute\<close>; a falsy value is never used. The field of the record holds
      the string (\<open>strProp\<close>), and nothing for a value that is not a string: for a falsy
      one this is what the code sees, and for a truthy one the code throws before it
      reads the field again, which \<open>optionsToConfigUnknown\<close> below takes care of.
\<close>

definition strProp :: "jsval \<Rightarrow> string \<Rightarrow> string option" where
  "strProp obj k = (case getProp obj k of JStr x \<Rightarrow> Some x | _ \<Rightarrow> None)"

definition tmplProp :: "'w sys \<Rightarrow> jsval \<Rightarrow> string \<Rightarrow> string option" where
  "tmplProp sys obj k =
     (if getProp obj k = JUndefined \<or> getProp obj k = JNull then None
      else Some (jsToString sys (getProp obj k)))"

definition asProgramOptions :: "'w sys \<Rightarrow> jsval \<Rightarrow> ProgramOptions" where
  "asProgramOptions sys obj =
     \<lparr>src = (case strProp obj ''src'' of None \<Rightarrow> [] | Some x \<Rightarrow> x),
      dest = (case strProp obj ''dest'' of None \<Rightarrow> [] | Some x \<Rightarrow> x),
      remoteRole = strProp obj ''remoteRole'',
      remoteUser = strProp obj ''remoteUser'',
      remoteHost = strProp obj ''remoteHost'',
      excludeFrom = strProp obj ''excludeFrom'',
      logFile = strProp obj ''logFile'',
      backupPrefix = tmplProp sys obj ''backupPrefix'',
      rsyncOptions = tmplProp sys obj ''rsyncOptions''\<rparr>"

subsection \<open>config.ts\<close>

definition optionsToConfig ::
  "'w sys \<Rightarrow> ProgramOptions \<Rightarrow> 'w state \<Rightarrow> ProgramConfig \<times> 'w state" where
  "optionsToConfig sys config s =
     (let isRemoteSrc' = (remoteRole config = Some ''src'');
          isRemoteDest' = (remoteRole config \<noteq> Some ''src'' \<and> remoteRole config = Some ''dest'')
      in case getLogger sys config s of
           (lg, s1) \<Rightarrow>
             (case (case excludeFrom config of
                      None \<Rightarrow> (config, s1)
                    | Some e \<Rightarrow>
                        if e = [] then (config, s1)
                        else
                          let excludeFrom' =
                                (if pathIsAbsolute sys e then e
                                 else pathJoin sys (cwd sys (world s1)) e)
                          in if \<not> existsSync sys excludeFrom' (world s1) then
                               (config\<lparr>excludeFrom := None\<rparr>,
                                logger_warn sys lg (''Exclude file not found: '' @ excludeFrom') s1)
                             else (config\<lparr>excludeFrom := Some excludeFrom'\<rparr>, s1)) of
                (config', s2) \<Rightarrow>
                  (ProgramOptions.extend
                     (config'\<lparr>backupPrefix :=
                        Some (case backupPrefix config' of None \<Rightarrow> ''BACKUP-'' | Some p \<Rightarrow> p)\<rparr>)
                     (ProgramConfig.fields isRemoteSrc' isRemoteDest' lg),
                   s2)))"

text \<open>
  \<^verbatim>\<open>optionsToConfig\<close> as its two callers run it, on an object that passed the guard. Types
  are erased at run time. When the logger is constructed (\<^verbatim>\<open>getLogger\<close> finds no instance) and
  \<^verbatim>\<open>logFile\<close> is truthy but not a string, \<^verbatim>\<open>path.isAbsolute\<close> throws in the constructor of
  \<^verbatim>\<open>Logger\<close>, where the call stands before the \<^verbatim>\<open>try\<close> block, and the exception leaves
  \<^verbatim>\<open>getLogger\<close> and \<^verbatim>\<open>optionsToConfig\<close>. When \<^verbatim>\<open>excludeFrom\<close> is truthy but not a string,
  \<^verbatim>\<open>path.isAbsolute\<close> throws in \<^verbatim>\<open>optionsToConfig\<close> itself, after \<^verbatim>\<open>getLogger\<close> returned. In
  every other case the call is \<open>optionsToConfig\<close> on the fields of the object.
\<close>

definition optionsToConfigUnknown ::
  "'w sys \<Rightarrow> jsval \<Rightarrow> 'w state \<Rightarrow> (string + ProgramConfig) \<times> 'w state" where
  "optionsToConfigUnknown sys obj s =
     (let logFile' = getProp obj ''logFile'';
          excludeFrom' = getProp obj ''excludeFrom''
      in if loggerInstance s = None \<and> truthy logFile' \<and> typeof logFile' \<noteq> ''string'' then
           (Inl (pathTypeError sys logFile'), s)
         else if truthy excludeFrom' \<and> typeof excludeFrom' \<noteq> ''string'' then
           (Inl (pathTypeError sys excludeFrom'),
            snd (getLogger sys (asProgramOptions sys obj) s))
         else (case optionsToConfig sys (asProgramOptions sys obj) s of
                 (c, s') \<Rightarrow> (Inr c, s')))"

definition readConfigFromJSON ::
  "'w sys \<Rightarrow> string \<Rightarrow> 'w state \<Rightarrow> ProgramConfig outcome \<times> 'w state" where
  "readConfigFromJSON sys configFilePath s =
     (let configPath = (if configFilePath \<noteq> [] then configFilePath
                        else pathJoin sys (cwd sys (world s)) ''.incback'')
      in if existsSync sys configPath (world s) then
           (case readFileSync sys configPath (world s) of
              Inl message \<Rightarrow> (Throw message, s)
            | Inr rawData \<Rightarrow>
                (case jsonParse sys rawData of
                   None \<Rightarrow> (Throw ''Invalid .incback configuration file'', s)
                 | Some config \<Rightarrow>
                     if \<not> isProgramOptions config then
                       (Throw ''Invalid .incback configuration file'', s)
                     else (case optionsToConfigUnknown sys config s of
                             (Inr c, s') \<Rightarrow> (Return c, s')
                           | (Inl message, s') \<Rightarrow> (Throw message, s'))))
         else (Throw (''Configuration file .incback not found in '' @ cwd sys (world s)), s))"

text \<open>The options that \<^verbatim>\<open>parseConfigFromArgs\<close> declares: flags and description.\<close>

definition declaredOptions :: "(string \<times> string) list" where
  "declaredOptions =
     [(''-c, --config <path>'', ''JSON configuration file path (.incback)''),
      (''-s, --src <path>'', ''source path''),
      (''-d, --dest <path>'', ''destination path''),
      (''-R, --remote-role <role>'', ''remote role (src|dest)''),
      (''-U, --remote-user <user>'', ''remote user''),
      (''-H, --remote-host <host>'', ''remote host''),
      (''-e, --exclude-from <file>'', ''path to exclude patterns file''),
      (''-l, --log-file <file>'', ''path to log file'')]"

definition parseConfigFromArgs ::
  "'w sys \<Rightarrow> 'w state \<Rightarrow> ProgramConfig option outcome \<times> 'w state" where
  "parseConfigFromArgs sys s =
     (if length (argv sys (world s)) \<le> 2 then (Return None, s)
      else
        case commanderParse sys declaredOptions (argv sys (world s)) of
          Inl status \<Rightarrow> (ProcExit status, s)
        | Inr options \<Rightarrow>
            if getProp options ''config'' \<noteq> JStr [] \<and> typeof (getProp options ''config'') = ''string''
            then (case readConfigFromJSON sys (case strProp options ''config'' of
                                                 None \<Rightarrow> [] | Some p \<Rightarrow> p) s of
                    (Return c, s') \<Rightarrow> (Return (Some c), s')
                  | (Throw message, s') \<Rightarrow> (Throw message, s')
                  | (ProcExit n, s') \<Rightarrow> (ProcExit n, s'))
            else if \<not> isProgramOptions options then
              (ProcExit 1,
               s\<lparr>trace := trace s @
                  [Console ErrorT ''Error: Missing or invalid parameters.'', OutputHelp]\<rparr>)
            else (case optionsToConfigUnknown sys options s of
                    (Inr c, s') \<Rightarrow> (Return (Some c), s')
                  | (Inl message, s') \<Rightarrow> (Throw message, s')))"

definition getConfig :: "'w sys \<Rightarrow> 'w state \<Rightarrow> ProgramConfig outcome \<times> 'w state" where
  "getConfig sys s =
     (case configCache s of
        Some c \<Rightarrow> (Return c, s)
      | None \<Rightarrow>
          (case (case parseConfigFromArgs sys s of
                   (Return (Some argsConfig), s1) \<Rightarrow> (Return argsConfig, s1)
                 | (Return None, s1) \<Rightarrow> readConfigFromJSON sys [] s1
                 | (Throw message, s1) \<Rightarrow> (Throw message, s1)
                 | (ProcExit n, s1) \<Rightarrow> (ProcExit n, s1)) of
             (Return c, s2) \<Rightarrow> (Return c, s2\<lparr>configCache := Some c\<rparr>)
           | (Throw message, s2) \<Rightarrow>
               (ProcExit 1, s2\<lparr>trace := trace s2 @ [Console ErrorT (''Startup error: '' @ message)]\<rparr>)
           | (ProcExit n, s2) \<Rightarrow> (ProcExit n, s2)))"

subsection \<open>backup.ts\<close>

definition getPath :: "'w sys \<Rightarrow> ProgramConfig \<Rightarrow> 'w \<Rightarrow> string \<Rightarrow> bool \<Rightarrow> string" where
  "getPath sys config w pathStr isRemote =
     (if isRemote then tmpl (remoteUser config) @ ''@'' @ tmpl (remoteHost config) @ '':'' @ pathStr
      else if pathIsAbsolute sys pathStr then pathStr
      else pathJoin sys (cwd sys w) pathStr)"

definition getSrcPath :: "'w sys \<Rightarrow> ProgramConfig \<Rightarrow> 'w \<Rightarrow> string" where
  "getSrcPath sys config w = getPath sys config w (src config) (isRemoteSrc config)"

definition getDestPath :: "'w sys \<Rightarrow> ProgramConfig \<Rightarrow> 'w \<Rightarrow> string" where
  "getDestPath sys config w = getPath sys config w (dest config) (isRemoteDest config)"

definition existsPath ::
  "'w sys \<Rightarrow> ProgramConfig \<Rightarrow> string \<Rightarrow> bool \<Rightarrow> 'w state \<Rightarrow> (string + bool) \<times> 'w state" where
  "existsPath sys config pathStr isRemote s =
     (if isRemote then
        remoteExists sys (tmpl (remoteUser config)) (tmpl (remoteHost config)) pathStr s
      else (Inr (existsSync sys pathStr (world s)), s))"

definition existsSrcPath ::
  "'w sys \<Rightarrow> ProgramConfig \<Rightarrow> 'w state \<Rightarrow> (string + bool) \<times> 'w state" where
  "existsSrcPath sys config s = existsPath sys config (src config) (isRemoteSrc config) s"

definition existsDestPath ::
  "'w sys \<Rightarrow> ProgramConfig \<Rightarrow> 'w state \<Rightarrow> (string + bool) \<times> 'w state" where
  "existsDestPath sys config s = existsPath sys config (dest config) (isRemoteDest config) s"

definition lsCmd :: "ProgramConfig \<Rightarrow> string" where
  "lsCmd config =
     ''ls -dt \"'' @ dest config @ ''/'' @
     (case backupPrefix config of None \<Rightarrow> ''BACKUP-'' | Some p \<Rightarrow> p) @ ''\"* | head -n 1''"

definition getLatestBackupDir ::
  "'w sys \<Rightarrow> ProgramConfig \<Rightarrow> 'w state \<Rightarrow> (string + string option) \<times> 'w state" where
  "getLatestBackupDir sys config s =
     (let destPath = dest config in
      if isRemoteDest config then
        (case remoteCommand sys (lsCmd config) config False s of
           (Inr result, s') \<Rightarrow> (Inr (if result \<noteq> [] then Some (trim result) else None), s')
         | (Inl e, s') \<Rightarrow> (Inr None, s'))
      else if \<not> existsSync sys destPath (world s) then (Inr None, s)
      else
        (case executeCommand sys (lsCmd config) s of
           (Inr result, s') \<Rightarrow> (Inr (if result \<noteq> [] then Some (trim result) else None), s')
         | (Inl e, s') \<Rightarrow> (Inr None, s')))"

definition mkdirCmd :: "string \<Rightarrow> string" where
  "mkdirCmd destPath = ''mkdir -p \"'' @ destPath @ ''\"''"

definition createDestDir ::
  "'w sys \<Rightarrow> ProgramConfig \<Rightarrow> 'w state \<Rightarrow> (string + unit) \<times> 'w state" where
  "createDestDir sys config s =
     (let destPath = dest config in
      if isRemoteDest config then
        (case remoteCommand sys (mkdirCmd destPath) config True s of
           (Inr out, s') \<Rightarrow> (Inr (), s')
         | (Inl e, s') \<Rightarrow> (Inl e, s'))
      else
        (case mkdirSync sys destPath (world s) of
           (None, w') \<Rightarrow> (Inr (), s\<lparr>world := w', trace := trace s @ [MkdirSync destPath]\<rparr>)
         | (Some message, w') \<Rightarrow>
             (Inl message, s\<lparr>world := w', trace := trace s @ [MkdirSync destPath]\<rparr>)))"

text \<open>
  The suffix of a snapshot directory,
  \<^verbatim>\<open>new Date().toISOString().replace(/:/g, "").split(".")[0]\<close>, and the name of the
  directory, \<^verbatim>\<open>`${config.backupPrefix??'BACKUP-'}${suffix}`\<close>.
\<close>

definition backupSuffix :: "int \<Rightarrow> string" where
  "backupSuffix t = takeWhile (\<lambda>c. c \<noteq> CHR ''.'') (filter (\<lambda>c. c \<noteq> CHR '':'') (toISOString t))"

definition backupDirLeaf :: "string option \<Rightarrow> int \<Rightarrow> string" where
  "backupDirLeaf prefix t =
     (case prefix of None \<Rightarrow> ''BACKUP-'' | Some p \<Rightarrow> p) @ backupSuffix t"

text \<open>
  The rsync command that \<^verbatim>\<open>backup\<close> builds from the latest snapshot found (if any) and the
  path of the new snapshot directory. A string is falsy when it is empty.
\<close>

definition rsyncBase :: "ProgramConfig \<Rightarrow> string" where
  "rsyncBase config =
     ''rsync -'' @ (case rsyncOptions config of None \<Rightarrow> ''az'' | Some x \<Rightarrow> x) @ '' --delete '' @
     (case excludeFrom config of
        None \<Rightarrow> []
      | Some e \<Rightarrow> if e = [] then [] else '' --exclude-from=\"'' @ e @ ''\" '')"

definition rsyncPaths :: "'w sys \<Rightarrow> ProgramConfig \<Rightarrow> 'w \<Rightarrow> string \<Rightarrow> string" where
  "rsyncPaths sys config w currentBackupDirname =
     '' \"'' @ getSrcPath sys config w @ ''/\" \"'' @ getDestPath sys config w @ ''/'' @
     pathBasename sys currentBackupDirname @ ''/\"''"

definition noLatest :: "string option \<Rightarrow> bool" where
  "noLatest latestBackupDir = (latestBackupDir = None \<or> latestBackupDir = Some [])"

definition rsyncCmd ::
  "'w sys \<Rightarrow> ProgramConfig \<Rightarrow> 'w \<Rightarrow> string option \<Rightarrow> string \<Rightarrow> string" where
  "rsyncCmd sys config w latestBackupDir currentBackupDirname =
     rsyncBase config @
     (if noLatest latestBackupDir then rsyncPaths sys config w currentBackupDirname
      else '' --link-dest=\"../'' @ pathBasename sys (the latestBackupDir) @ ''/\" '' @
           rsyncPaths sys config w currentBackupDirname)"

definition backupAnnounce ::
  "'w sys \<Rightarrow> ProgramConfig \<Rightarrow> 'w \<Rightarrow> string option \<Rightarrow> string \<Rightarrow> string" where
  "backupAnnounce sys config w latestBackupDir currentBackupDirname =
     (if noLatest latestBackupDir then
        ''Initial backup to '' @ getDestPath sys config w @ ''/'' @
        pathBasename sys currentBackupDirname
      else
        ''Incremental backup to '' @ getDestPath sys config w @ ''/'' @
        pathBasename sys currentBackupDirname @ '' with link-dest to '' @ dest config @ ''/'' @
        pathBasename sys (the latestBackupDir))"

text \<open>
  Steps 2 to 4 of \<^verbatim>\<open>backup\<close>: find the latest snapshot, build the rsync command, announce and
  run it. \<open>rsyncCmd\<close> is evaluated after the first message was logged, as in the source.
\<close>

definition backupSync ::
  "'w sys \<Rightarrow> ProgramConfig \<Rightarrow> string \<Rightarrow> 'w state \<Rightarrow> (string + unit) \<times> 'w state" where
  "backupSync sys programConfig currentBackupDirname s3 =
     (case getLatestBackupDir sys programConfig s3 of
        (Inl e, s4) \<Rightarrow> (Inl e, s4)
      | (Inr latestBackupDir, s4) \<Rightarrow>
          let s5 = logger_log sys (logger programConfig)
                     (backupAnnounce sys programConfig (world s4)
                        latestBackupDir currentBackupDirname) s4;
              cmd = rsyncCmd sys programConfig (world s5) latestBackupDir currentBackupDirname;
              s6 = logger_log sys (logger programConfig) (''Executing command:'' @ cmd) s5
          in (case executeCommand sys cmd s6 of
                (Inl e, s7) \<Rightarrow> (Inl e, s7)
              | (Inr out, s7) \<Rightarrow> (Inr (), s7)))"

text \<open>
  \<^verbatim>\<open>backup\<close>: the name of the new snapshot directory from the clock, step 1 (the source must
  exist, the destination is created when it does not exist), then steps 2 to 4.
\<close>

definition backup ::
  "'w sys \<Rightarrow> ProgramConfig \<Rightarrow> 'w state \<Rightarrow> (string + unit) \<times> 'w state" where
  "backup sys programConfig s =
     (case clock sys (world s) of
        (now, w0) \<Rightarrow>
          let s0 = s\<lparr>world := w0\<rparr>;
              currentBackupDirname =
                pathJoin sys (dest programConfig) (backupDirLeaf (backupPrefix programConfig) now)
          in (case existsSrcPath sys programConfig s0 of
               (Inl e, s1) \<Rightarrow> (Inl e, s1)
             | (Inr False, s1) \<Rightarrow>
                 (Inl (''Source directory \"'' @ src programConfig @ ''\" does not exist.''), s1)
             | (Inr True, s1) \<Rightarrow>
                 (case existsDestPath sys programConfig s1 of
                    (Inl e, s2) \<Rightarrow> (Inl e, s2)
                  | (Inr destExists, s2) \<Rightarrow>
                      (case (if \<not> destExists then createDestDir sys programConfig s2
                             else (Inr (), s2)) of
                         (Inl e, s3) \<Rightarrow>
                           (Inl (''Destination directory \"'' @ dest programConfig @
                                 ''\" does not exist and could not be created.''), s3)
                       | (Inr u, s3) \<Rightarrow>
                           backupSync sys programConfig currentBackupDirname s3))))"

definition backupRun :: "'w sys \<Rightarrow> 'w state \<Rightarrow> unit outcome \<times> 'w state" where
  "backupRun sys s =
     (case getConfig sys s of
        (Return config, s1) \<Rightarrow>
          (case backup sys config s1 of
             (Inl e, s2) \<Rightarrow> (Throw e, s2)
           | (Inr u, s2) \<Rightarrow> (Return (), s2))
      | (Throw message, s1) \<Rightarrow> (Throw message, s1)
      | (ProcExit n, s1) \<Rightarrow> (ProcExit n, s1))"

subsection \<open>index.ts\<close>

text \<open>
  The entry point: the exit status of the process, 1 from the \<^verbatim>\<open>catch\<close> handler after it
  has printed the error, 0 when the promise of \<^verbatim>\<open>backupRun\<close> resolves.
\<close>

definition main :: "'w sys \<Rightarrow> 'w state \<Rightarrow> int \<times> 'w state" where
  "main sys s =
     (case backupRun sys s of
        (Return u, s') \<Rightarrow> (0, s')
      | (Throw message, s') \<Rightarrow>
          (1, s'\<lparr>trace := trace s' @ [Console ErrorT (''Backup failed: '' @ message)]\<rparr>)
      | (ProcExit n, s') \<Rightarrow> (n, s'))"

definition initialState :: "'w \<Rightarrow> 'w state" where
  "initialState w = \<lparr>world = w, trace = [], loggerInstance = None, configCache = None\<rparr>"

subsection \<open>A scripted system\<close>

text \<open>
  A small concrete system on which the program can be run: a list of the paths that
  exist, the contents of files, a script that gives the result of each command (a command
  that is not in the script is not found by the shell: status 127 and a message on
  stderr), a clock that advances by one second at each reading, and POSIX paths without
  \<^verbatim>\<open>.\<close> or \<^verbatim>\<open>..\<close> segments.
\<close>

record fakeWorld =
  files :: "string list"
  contents :: "(string \<times> string) list"
  script :: "(string \<times> proc_result) list"
  time :: int
  args :: "string list"

definition fakeBasename :: "string \<Rightarrow> string" where
  "fakeBasename p =
     rev (takeWhile (\<lambda>c. c \<noteq> CHR ''/'') (dropWhile (\<lambda>c. c = CHR ''/'') (rev p)))"

definition fakeDirname :: "string \<Rightarrow> string" where
  "fakeDirname p =
     (let d = rev (dropWhile (\<lambda>c. c = CHR ''/'')
                (dropWhile (\<lambda>c. c \<noteq> CHR ''/'') (dropWhile (\<lambda>c. c = CHR ''/'') (rev p))))
      in if d = [] then (if take 1 p = ''/'' then ''/'' else ''.'') else d)"

text \<open>
  Commander on options that take a value, given as separate arguments: the key of an
  option is its long flag in camel case; an option that was not declared, or a value
  that is missing, ends the process with status 1, and \<^verbatim>\<open>--help\<close> with status 0.
\<close>

definition upperChar :: "char \<Rightarrow> char" where
  "upperChar c = (if CHR ''a'' \<le> c \<and> c \<le> CHR ''z'' then char_of (of_char c - (32::nat)) else c)"

fun camelCase :: "string \<Rightarrow> string" where
  "camelCase [] = []"
| "camelCase [c] = [c]"
| "camelCase (c # d # cs) =
     (if c = CHR ''-'' then upperChar d # camelCase cs else c # camelCase (d # cs))"

definition shortFlag :: "string \<Rightarrow> string" where
  "shortFlag flags = take 2 flags"

definition longFlag :: "string \<Rightarrow> string" where
  "longFlag flags = takeWhile (\<lambda>c. c \<noteq> CHR '' '') (drop 4 flags)"

definition findOption :: "(string \<times> string) list \<Rightarrow> string \<Rightarrow> string option" where
  "findOption decls arg =
     (case filter (\<lambda>flags. arg = shortFlag flags \<or> arg = longFlag flags) (map fst decls) of
        [] \<Rightarrow> None
      | flags # _ \<Rightarrow> Some (camelCase (drop 2 (longFlag flags))))"

fun fakeOptions :: "(string \<times> string) list \<Rightarrow> string list \<Rightarrow> int + (string \<times> jsval) list" where
  "fakeOptions decls [] = Inr []"
| "fakeOptions decls (a # rest) =
     (if a = ''-h'' \<or> a = ''--help'' then Inl 0
      else if take 1 a \<noteq> ''-'' then fakeOptions decls rest
      else case findOption decls a of
             None \<Rightarrow> Inl 1
           | Some k \<Rightarrow>
               (case rest of
                  [] \<Rightarrow> Inl 1
                | v # rest' \<Rightarrow>
                    (case fakeOptions decls rest' of
                       Inl status \<Rightarrow> Inl status
                     | Inr kvs \<Rightarrow> Inr (if k \<in> set (map fst kvs) then kvs else (k, JStr v) # kvs))))"

definition fakeCommander :: "(string \<times> string) list \<Rightarrow> string list \<Rightarrow> int + jsval" where
  "fakeCommander decls argv' =
     (case fakeOptions decls (drop 2 argv') of
        Inl status \<Rightarrow> Inl status
      | Inr kvs \<Rightarrow> Inr (JObj kvs))"

text \<open>The JSON texts that the scripted system can parse.\<close>

definition fakeJSON :: "(string \<times> jsval) list" where
  "fakeJSON =
     [(''{\"src\":\"/tmp/a\",\"dest\":\"/tmp/b\"}'',
       JObj [(''src'', JStr ''/tmp/a''), (''dest'', JStr ''/tmp/b'')]),
      (''{\"src\":\"/tmp/a\",\"dest\":\"/tmp/b\",\"excludeFrom\":\"skip.txt\"}'',
       JObj [(''src'', JStr ''/tmp/a''), (''dest'', JStr ''/tmp/b''),
             (''excludeFrom'', JStr ''skip.txt'')]),
      (''{\"src\":\"/tmp/a\",\"dest\":\"/tmp/b\",\"rsyncOptions\":\"av\"}'',
       JObj [(''src'', JStr ''/tmp/a''), (''dest'', JStr ''/tmp/b''),
             (''rsyncOptions'', JStr ''av'')]),
      (''{\"src\":\"/tmp/a\",\"dest\":\"/tmp/b\",\"excludeFrom\":\"skip.txt\",\"logFile\":5}'',
       JObj [(''src'', JStr ''/tmp/a''), (''dest'', JStr ''/tmp/b''),
             (''excludeFrom'', JStr ''skip.txt''), (''logFile'', JNum 5)]),
      (''{\"src\":\"/tmp/a\",\"dest\":\"/tmp/b\",\"rsyncOptions\":\"az --link-dest=/old\"}'',
       JObj [(''src'', JStr ''/tmp/a''), (''dest'', JStr ''/tmp/b''),
             (''rsyncOptions'', JStr ''az --link-dest=/old'')])]"

text \<open>
  The message of the \<^verbatim>\<open>TypeError\<close> of \<^verbatim>\<open>path.isAbsolute\<close>, as Node words it. The scripted
  system prints a number as its integer part, which is what a template literal prints for
  an integer below \<^verbatim>\<open>1e21\<close>.
\<close>

definition fakeReceived :: "jsval \<Rightarrow> string" where
  "fakeReceived v =
     (case v of
        JUndefined \<Rightarrow> ''undefined''
      | JNull \<Rightarrow> ''null''
      | JBool b \<Rightarrow> ''type boolean ('' @ (if b then ''true'' else ''false'') @ '')''
      | JNum n \<Rightarrow> ''type number ('' @ showInt \<lfloor>n\<rfloor> @ '')''
      | JStr x \<Rightarrow> ''type string ('' @ SQ @ x @ SQ @ '')''
      | JArr vs \<Rightarrow> ''an instance of Array''
      | JObj kvs \<Rightarrow> ''an instance of Object'')"

definition fakeSys :: "fakeWorld sys" where
  "fakeSys =
     \<lparr>spawn = (\<lambda>command w.
        (case map_of (script w) command of
           Some r \<Rightarrow> r
         | None \<Rightarrow> Closed (Some 127) [] ''sh: command not found'', w)),
      existsSync = (\<lambda>p w. p \<in> set (files w)),
      mkdirSync = (\<lambda>p w. (None, w\<lparr>files := p # files w\<rparr>)),
      createWriteStream = (\<lambda>p w. (None, w\<lparr>files := p # files w\<rparr>)),
      readFileSync = (\<lambda>p w. case map_of (contents w) p of
                                None \<Rightarrow> Inl (''ENOENT: no such file or directory, open '' @ p)
                              | Some text \<Rightarrow> Inr text),
      clock = (\<lambda>w. (time w, w\<lparr>time := time w + 1000\<rparr>)),
      cwd = (\<lambda>w. ''/home/user''),
      argv = args,
      pathIsAbsolute = (\<lambda>p. take 1 p = ''/''),
      pathJoin = (\<lambda>a b. a @ ''/'' @ b),
      pathBasename = fakeBasename,
      pathDirname = fakeDirname,
      jsonParse = map_of fakeJSON,
      commanderParse = fakeCommander,
      numberToString = (\<lambda>n. showInt \<lfloor>n\<rfloor>),
      pathTypeError = (\<lambda>v. ''The \"path\" argument must be of type string. Received '' @
                              fakeReceived v)\<rparr>"

text \<open>Whether an event is an invocation of the sync tool.\<close>

definition isSyncInvocation :: "event \<Rightarrow> bool" where
  "isSyncInvocation e = (case e of Spawn command \<Rightarrow> take 7 command = ''rsync -'' | _ \<Rightarrow> False)"

subsection \<open>Worlds and configurations for the scripted system\<close>

definition emptyWorld :: fakeWorld where
  "emptyWorld = \<lparr>files = [], contents = [], script = [], time = 0, args = []\<rparr>"

definition localConfig :: ProgramConfig where
  "localConfig =
     \<lparr>src = ''/tmp/a'', dest = ''/tmp/b'', remoteRole = None, remoteUser = None,
      remoteHost = None, excludeFrom = None, logFile = None, backupPrefix = Some ''BACKUP-'',
      rsyncOptions = None, isRemoteSrc = False, isRemoteDest = False,
      logger = \<lparr>logFilePath = None, stream = None\<rparr>\<rparr>"

text \<open>
  Source and destination exist, there is no snapshot yet (\<^verbatim>\<open>ls\<close> finds nothing and
  complains on stderr), and rsync succeeds silently. The clock shows 2025-11-23T19:30:45.123Z.
\<close>

definition firstRunWorld :: fakeWorld where
  "firstRunWorld =
     \<lparr>files = [''/tmp/a'', ''/tmp/b''], contents = [],
      script =
        [(''ls -dt \"/tmp/b/BACKUP-\"* | head -n 1'',
          Closed (Some 0) [] ''ls: cannot access /tmp/b/BACKUP-*: No such file or directory''),
         (''rsync -az --delete  \"/tmp/a/\" \"/tmp/b/BACKUP-2025-11-23T193045/\"'',
          Closed (Some 0) [] []),
         (''echo hi'', Closed (Some 0) (''hi'' @ [CHR 0x0A]) []),
         (''nosuchshell'', SpawnError ''spawn /bin/sh ENOENT'')],
      time = 1763926245123,
      args = [''node'', ''incback'', ''-s'', ''/tmp/a'', ''-d'', ''/tmp/b'']\<rparr>"

text \<open>
  No arguments on the command line; the file \<^verbatim>\<open>.incback\<close> of the working directory names an
  exclude file, \<^verbatim>\<open>skip.txt\<close>, that does not exist.
\<close>

definition excludeWorld :: fakeWorld where
  "excludeWorld =
     \<lparr>files = [''/home/user/.incback'', ''/tmp/a'', ''/tmp/b''],
      contents = [(''/home/user/.incback'',
                   ''{\"src\":\"/tmp/a\",\"dest\":\"/tmp/b\",\"excludeFrom\":\"skip.txt\"}'')],
      script = [], time = 1763926245123, args = [''node'', ''incback'']\<rparr>"

definition remoteSrcObject :: jsval where
  "remoteSrcObject =
     JObj [(''src'', JStr ''/var/www''), (''dest'', JStr ''/tmp/b''), (''remoteRole'', JStr ''src''),
           (''remoteUser'', JStr ''root''), (''remoteHost'', JStr ''example.com'')]"

definition remoteDestObject :: jsval where
  "remoteDestObject =
     JObj [(''src'', JStr ''/tmp/a''), (''dest'', JStr ''/srv/b''), (''remoteRole'', JStr ''dest''),
           (''remoteUser'', JStr ''backup''), (''remoteHost'', JStr ''nas'')]"

definition localObject :: jsval where
  "localObject = JObj [(''src'', JStr ''/tmp/a''), (''dest'', JStr ''/tmp/b'')]"



text \<open>\<open>quiet s s'\<close>: from \<open>s\<close> to \<open>s'\<close> the trace only grew, and by no invocation of rsync.\<close>

definition quiet :: "'w state \<Rightarrow> 'w state \<Rightarrow> bool" where
  "quiet s s' =
     (\<exists>evs. trace s' = trace s @ evs \<and> list_all (\<lambda>e. \<not> isSyncInvocation e) evs)"

text \<open>
  A local source and a destination on the host \<^verbatim>\<open>nas\<close>, which cannot be reached: every ssh
  command fails.
\<close>

definition remoteDestConfig :: ProgramConfig where
  "remoteDestConfig =
     localConfig\<lparr>dest := ''/srv/b'', remoteRole := Some ''dest'', remoteUser := Some ''backup'',
                 remoteHost := Some ''nas'', isRemoteDest := True\<rparr>"

definition unreachableWorld :: fakeWorld where
  "unreachableWorld =
     \<lparr>files = [''/tmp/a''], contents = [], script = [], time = 1763926245123,
      args = [''node'', ''incback'', ''-s'', ''/tmp/a'', ''-d'', ''/srv/b'', ''-R'', ''dest'',
              ''-U'', ''backup'', ''-H'', ''nas'']\<rparr>"

text \<open>
  A run with \<^verbatim>\<open>-p WEB-\<close> on the command line, and a run whose configuration file sets
  \<^verbatim>\<open>rsyncOptions\<close> to \<^verbatim>\<open>av\<close>.
\<close>

definition prefixFlagWorld :: fakeWorld where
  "prefixFlagWorld =
     \<lparr>files = [''/tmp/a'', ''/tmp/b''], contents = [], script = [], time = 1763926245123,
      args = [''node'', ''incback'', ''-s'', ''/tmp/a'', ''-d'', ''/tmp/b'', ''-p'', ''WEB-'']\<rparr>"

definition optionsFlagWorld :: fakeWorld where
  "optionsFlagWorld =
     \<lparr>files = [''/tmp/a'', ''/tmp/b''], contents = [], script = [], time = 1763926245123,
      args = [''node'', ''incback'', ''-s'', ''/tmp/a'', ''-d'', ''/tmp/b'', ''-o'', ''az'']\<rparr>"

definition verboseWorld :: fakeWorld where
  "verboseWorld =
     \<lparr>files = [''/home/user/.incback'', ''/tmp/a'', ''/tmp/b''],
      contents = [(''/home/user/.incback'',
                   ''{\"src\":\"/tmp/a\",\"dest\":\"/tmp/b\",\"rsyncOptions\":\"av\"}'')],
      script = [], time = 1763926245123, args = [''node'', ''incback'']\<rparr>"

text \<open>
  Three runs whose configuration names the exclude file \<^verbatim>\<open>skip.txt\<close>, which does not exist:
  with \<^verbatim>\<open>-e skip.txt\<close> on the command line, with \<^verbatim>\<open>-c /etc/incback.json\<close> on the command
  line, and with a file \<^verbatim>\<open>.incback\<close> that also sets \<^verbatim>\<open>logFile\<close> to the number 5.
\<close>

definition excludeFlagWorld :: fakeWorld where
  "excludeFlagWorld =
     \<lparr>files = [''/tmp/a'', ''/tmp/b''], contents = [], script = [], time = 1763926245123,
      args = [''node'', ''incback'', ''-s'', ''/tmp/a'', ''-d'', ''/tmp/b'', ''-e'', ''skip.txt'']\<rparr>"

definition configFlagWorld :: fakeWorld where
  "configFlagWorld =
     \<lparr>files = [''/etc/incback.json'', ''/tmp/a'', ''/tmp/b''],
      contents = [(''/etc/incback.json'',
                   ''{\"src\":\"/tmp/a\",\"dest\":\"/tmp/b\",\"excludeFrom\":\"skip.txt\"}'')],
      script = [], time = 1763926245123,
      args = [''node'', ''incback'', ''-c'', ''/etc/incback.json'']\<rparr>"

definition numericLogFileWorld :: fakeWorld where
  "numericLogFileWorld =
     \<lparr>files = [''/home/user/.incback'', ''/tmp/a'', ''/tmp/b''],
      contents = [(''/home/user/.incback'',
                   ''{\"src\":\"/tmp/a\",\"dest\":\"/tmp/b\",\"excludeFrom\":\"skip.txt\",\"logFile\":5}'')],
      script = [], time = 1763926245123, args = [''node'', ''incback'']\<rparr>"

subsection \<open>Texts inside a command\<close>

text \<open>\<open>occurrences p s\<close>: at how many positions of \<open>s\<close> the text \<open>p\<close> starts.\<close>

fun occurrences :: "string \<Rightarrow> string \<Rightarrow> nat" where
  "occurrences p [] = 0"
| "occurrences p (c # s) = (if take (length p) (c # s) = p then 1 else 0) + occurrences p s"

declare occurrences.simps [simp del]

definition linkDest :: string where
  "linkDest = ''--link-dest=''"

text \<open>
  A first run (source and destination exist, there is no snapshot yet, rsync succeeds
  silently) whose configuration file gives rsync options that carry a baseline reference of
  their own, and the configuration that is loaded from that file.
\<close>

definition ownLinkDestWorld :: fakeWorld where
  "ownLinkDestWorld =
     \<lparr>files = [''/home/user/.incback'', ''/tmp/a'', ''/tmp/b''],
      contents = [(''/home/user/.incback'',
                   ''{\"src\":\"/tmp/a\",\"dest\":\"/tmp/b\",\"rsyncOptions\":\"az --link-dest=/old\"}'')],
      script =
        [(''ls -dt \"/tmp/b/BACKUP-\"* | head -n 1'',
          Closed (Some 0) [] ''ls: cannot access /tmp/b/BACKUP-*: No such file or directory''),
         (''rsync -az --link-dest=/old --delete  \"/tmp/a/\" \"/tmp/b/BACKUP-2025-11-23T193045/\"'',
          Closed (Some 0) [] [])],
      time = 1763926245123, args = [''node'', ''incback'']\<rparr>"

definition ownLinkDestConfig :: ProgramConfig where
  "ownLinkDestConfig = localConfig\<lparr>rsyncOptions := Some ''az --link-dest=/old''\<rparr>"


text \<open>The suffix of a snapshot directory, from the fields of a date with a four-digit year.\<close>

definition stamp :: "nat \<Rightarrow> nat \<Rightarrow> nat \<Rightarrow> nat \<Rightarrow> nat \<Rightarrow> nat \<Rightarrow> string" where
  "stamp y m d h i s =
     zpad 4 y @ ''-'' @ zpad 2 m @ ''-'' @ zpad 2 d @ ''T'' @ zpad 2 h @ zpad 2 i @ zpad 2 s"

section \<open>Properties\<close>

subsection \<open>Helper lemmas\<close>

lemma dropWhile_dropWhile: "dropWhile P (dropWhile P xs) = dropWhile P xs"
  by (induction xs) auto

lemma trim_no_leading_space: "dropWhile isWhiteSpace (trim s) = trim s"
proof (cases "trim s")
  case Nil
  then show ?thesis by simp
next
  case (Cons a as)
  let ?t = "dropWhile isWhiteSpace s"
  have ne: "?t \<noteq> []"
  proof
    assume e: "?t = []"
    have "trim s = []" unfolding trim_def e by simp
    with Cons show False by simp
  qed
  then have h: "\<not> isWhiteSpace (hd ?t)" by (simp add: hd_dropWhile)
  obtain k where k: "dropWhile isWhiteSpace (rev ?t) = drop k (rev ?t)"
    by (metis dropWhile_eq_drop)
  have "trim s = take (length ?t - k) ?t"
    unfolding trim_def k by (simp add: rev_drop)
  moreover have "length ?t - k \<noteq> 0" using Cons calculation by auto
  ultimately have "hd (trim s) = hd ?t" by (metis hd_take gr0I)
  with h Cons show ?thesis by simp
qed

lemma trim_trim: "trim (trim s) = trim s"
proof -
  have "rev (trim s) = dropWhile isWhiteSpace (rev (dropWhile isWhiteSpace s))"
    unfolding trim_def by simp
  then have "dropWhile isWhiteSpace (rev (trim s)) = rev (trim s)"
    by (simp add: dropWhile_dropWhile)
  then show ?thesis
    by (simp add: trim_def [of "trim s"] trim_no_leading_space)
qed

lemmas run_defs =
  backup_def backupSync_def fakeSys_def existsSrcPath_def existsPath_def existsDestPath_def
  getLatestBackupDir_def createDestDir_def remoteExists_def remoteExistsCmd_def
  remoteCommand_def sshCommand_def escapeShellArg_def mkdirCmd_def SQ_def BS_def
  executeCommand_def executeResult_def lsCmd_def rsyncCmd_def rsyncBase_def rsyncPaths_def
  noLatest_def getSrcPath_def getDestPath_def getPath_def backupDirLeaf_def tmpl_def
  fakeBasename_def logger_log_def logWrite_def Let_def

lemma suffix_2025: "backupSuffix 1763926245123 = ''2025-11-23T193045''"
  by code_simp

lemma rsyncCmd_is_sync: "take 7 (rsyncCmd sys config w latest cur) = ''rsync -''"
  by (simp add: rsyncCmd_def rsyncBase_def)

lemma executeCommand_Inr:
  assumes "fst (executeCommand sys command s) = Inr out"
  shows "\<exists>out' w'. spawn sys command (world s) = (Closed (Some 0) out' [], w') \<and>
           snd (executeCommand sys command s) = s\<lparr>world := w', trace := trace s @ [Spawn command]\<rparr>"
  using assms
  by (auto simp: executeCommand_def executeResult_def
           split: prod.splits proc_result.splits if_splits)

lemma backupSync_success:
  assumes "fst (backupSync sys cfg cur s3) = Inr ()"
  shows "\<exists>cmd s6 out. take 7 cmd = ''rsync -'' \<and> fst (executeCommand sys cmd s6) = Inr out \<and>
           snd (backupSync sys cfg cur s3) = snd (executeCommand sys cmd s6)"
proof -
  obtain r s4 where g: "getLatestBackupDir sys cfg s3 = (r, s4)"
    by (cases "getLatestBackupDir sys cfg s3")
  show ?thesis
  proof (cases r)
    case (Inl e)
    with g assms show ?thesis by (simp add: backupSync_def)
  next
    case (Inr latest)
    define s5 where "s5 = logger_log sys (logger cfg)
      (backupAnnounce sys cfg (world s4) latest cur) s4"
    define cmd where "cmd = rsyncCmd sys cfg (world s5) latest cur"
    define s6 where "s6 = logger_log sys (logger cfg) (''Executing command:'' @ cmd) s5"
    have e: "backupSync sys cfg cur s3 =
               (case executeCommand sys cmd s6 of
                  (Inl e, s7) \<Rightarrow> (Inl e, s7) | (Inr out, s7) \<Rightarrow> (Inr (), s7))"
      by (simp add: backupSync_def g Inr s5_def cmd_def s6_def Let_def)
    obtain q s7 where x: "executeCommand sys cmd s6 = (q, s7)"
      by (cases "executeCommand sys cmd s6")
    with e assms obtain out where "q = Inr out"
      by (cases q) auto
    with x e have "fst (executeCommand sys cmd s6) = Inr out"
      and "snd (backupSync sys cfg cur s3) = snd (executeCommand sys cmd s6)"
      by simp_all
    moreover have "take 7 cmd = ''rsync -''"
      by (simp add: cmd_def rsyncCmd_is_sync)
    ultimately show ?thesis by blast
  qed
qed

lemma backup_success_sync:
  assumes "fst (backup sys cfg s) = Inr ()"
  shows "\<exists>cmd s6 out. take 7 cmd = ''rsync -'' \<and> fst (executeCommand sys cmd s6) = Inr out \<and>
           snd (backup sys cfg s) = snd (executeCommand sys cmd s6)"
proof -
  from assms obtain cur s3 where "backup sys cfg s = backupSync sys cfg cur s3"
    unfolding backup_def
    by (auto simp: Let_def split: prod.splits sum.splits bool.splits if_splits)
  with assms backupSync_success [of sys cfg cur s3] show ?thesis
    by simp
qed

subsection \<open>C5: the remote probe\<close>

text \<open>
  C5. \<open>remoteExists\<close> never rejects: for every user, host and path, and in every world, it
  resolves to a boolean. The boolean is true exactly when the ssh process that runs the
  existence test closed with status 0, wrote nothing to stderr, and wrote to stdout a text
  that is \<^verbatim>\<open>exists\<close> after trimming; every other end of the process, also a process that
  could not be spawned, resolves to false.
\<close>

theorem remoteExists_total:
  "fst (remoteExists sys u h p s) =
     Inr (\<exists>out. fst (spawn sys (remoteExistsCmd u h p) (world s)) = Closed (Some 0) out [] \<and>
                 trim out = ''exists'')"
  by (auto simp: remoteExists_def executeCommand_def executeResult_def trim_trim
           split: prod.splits sum.splits proc_result.splits if_splits)

subsection \<open>C7: when a command fails\<close>

text \<open>
  C7. For a process that ran until it closed, the promise of \<open>executeCommand\<close> rejects if and
  only if the exit code is not 0 or something was written to stderr, and otherwise it
  resolves with the trimmed stdout; a process that could not be spawned rejects as well.
  Consequently a run of \<open>backup\<close> resolves only if its last action was an rsync process
  that closed with status 0 and an empty stderr: any other end of the sync invocation
  fails the whole run.
\<close>

theorem executeCommand_rejects_iff:
  "(\<forall>code out err w'. spawn sys command (world s) = (Closed code out err, w') \<longrightarrow>
      ((\<exists>e. fst (executeCommand sys command s) = Inl e) \<longleftrightarrow> (code \<noteq> Some 0 \<or> err \<noteq> [])) \<and>
      (code = Some 0 \<and> err = [] \<longrightarrow> fst (executeCommand sys command s) = Inr (trim out))) \<and>
   (\<forall>message w'. spawn sys command (world s) = (SpawnError message, w') \<longrightarrow>
      (\<exists>e. fst (executeCommand sys command s) = Inl e)) \<and>
   (fst (backup sys cfg s0) = Inr () \<longrightarrow>
      (\<exists>cmd s6 out w'. take 7 cmd = ''rsync -'' \<and>
         spawn sys cmd (world s6) = (Closed (Some 0) out [], w') \<and>
         snd (backup sys cfg s0) = s6\<lparr>world := w', trace := trace s6 @ [Spawn cmd]\<rparr>))"
proof (intro conjI impI allI)
  assume "fst (backup sys cfg s0) = Inr ()"
  then obtain cmd s6 out where c: "take 7 cmd = ''rsync -''"
    and r: "fst (executeCommand sys cmd s6) = Inr out"
    and e: "snd (backup sys cfg s0) = snd (executeCommand sys cmd s6)"
    using backup_success_sync by blast
  from executeCommand_Inr [OF r] c e
  show "\<exists>cmd s6 out w'. take 7 cmd = ''rsync -'' \<and>
         spawn sys cmd (world s6) = (Closed (Some 0) out [], w') \<and>
         snd (backup sys cfg s0) = s6\<lparr>world := w', trace := trace s6 @ [Spawn cmd]\<rparr>"
    by metis
qed (auto simp: executeCommand_def executeResult_def)

theorem executeCommand_rejects_iff_witness:
  "fst (executeCommand fakeSys ''echo hi'' (initialState firstRunWorld)) = Inr ''hi'' \<and>
   (\<exists>e. fst (executeCommand fakeSys ''false'' (initialState firstRunWorld)) = Inl e) \<and>
   (\<exists>e. fst (executeCommand fakeSys ''nosuchshell'' (initialState firstRunWorld)) = Inl e) \<and>
   fst (backup fakeSys localConfig (initialState firstRunWorld)) = Inr () \<and>
   (\<exists>cmd s6 out w'. take 7 cmd = ''rsync -'' \<and>
      spawn fakeSys cmd (world s6) = (Closed (Some 0) out [], w') \<and>
      snd (backup fakeSys localConfig (initialState firstRunWorld)) =
        s6\<lparr>world := w', trace := trace s6 @ [Spawn cmd]\<rparr>)"
proof -
  let ?s = "initialState firstRunWorld"
  have a: "spawn fakeSys ''echo hi'' (world ?s) =
             (Closed (Some 0) (''hi'' @ [CHR 0x0A]) [], firstRunWorld)"
    by (simp add: fakeSys_def initialState_def firstRunWorld_def)
  have b: "spawn fakeSys ''false'' (world ?s) =
             (Closed (Some 127) [] ''sh: command not found'', firstRunWorld)"
    by (simp add: fakeSys_def initialState_def firstRunWorld_def)
  have c: "spawn fakeSys ''nosuchshell'' (world ?s) =
             (SpawnError ''spawn /bin/sh ENOENT'', firstRunWorld)"
    by (simp add: fakeSys_def initialState_def firstRunWorld_def)
  have d: "fst (backup fakeSys localConfig ?s) = Inr ()"
    by (simp add: run_defs initialState_def firstRunWorld_def localConfig_def suffix_2025)
  have t: "trim (''hi'' @ [CHR 0x0A]) = ''hi''"
    by (simp add: trim_def isWhiteSpace_def)
  from executeCommand_rejects_iff [of fakeSys "''echo hi''" ?s localConfig ?s] a t
  have 1: "fst (executeCommand fakeSys ''echo hi'' ?s) = Inr ''hi''"
    by simp
  from executeCommand_rejects_iff [of fakeSys "''false''" ?s localConfig ?s] b
  have 2: "\<exists>e. fst (executeCommand fakeSys ''false'' ?s) = Inl e"
    by simp
  from executeCommand_rejects_iff [of fakeSys "''nosuchshell''" ?s localConfig ?s] c
  have 3: "\<exists>e. fst (executeCommand fakeSys ''nosuchshell'' ?s) = Inl e"
    by simp
  from executeCommand_rejects_iff [of fakeSys "''echo hi''" ?s localConfig ?s] d
  have 4: "\<exists>cmd s6 out w'. take 7 cmd = ''rsync -'' \<and>
      spawn fakeSys cmd (world s6) = (Closed (Some 0) out [], w') \<and>
      snd (backup fakeSys localConfig ?s) = s6\<lparr>world := w', trace := trace s6 @ [Spawn cmd]\<rparr>"
    by blast
  from 1 2 3 d 4 show ?thesis by blast
qed

subsection \<open>C10: the precondition of \<open>remoteCommand\<close>\<close>

text \<open>
  C10. When \<^verbatim>\<open>remoteUser\<close> or \<^verbatim>\<open>remoteHost\<close> is missing or empty, \<open>remoteCommand\<close> rejects with
  the message \<^verbatim>\<open>remoteCommand requires remoteUser and remoteHost in configuration\<close>, whatever
  \<open>throwError\<close> is, and runs nothing. When both are present and the ssh command fails, the
  result is the empty string without \<open>throwError\<close> and the error with it.
\<close>

theorem remoteCommand_precondition:
  "((remoteUser config = None \<or> remoteUser config = Some [] \<or>
     remoteHost config = None \<or> remoteHost config = Some []) \<longrightarrow>
    remoteCommand sys command config throwError s =
      (Inl ''remoteCommand requires remoteUser and remoteHost in configuration'', s)) \<and>
   (\<forall>u h e. remoteUser config = Some u \<and> u \<noteq> [] \<and> remoteHost config = Some h \<and> h \<noteq> [] \<and>
       fst (executeCommand sys (sshCommand (u @ ''@'' @ h) command) s) = Inl e \<longrightarrow>
       fst (remoteCommand sys command config False s) = Inr [] \<and>
       fst (remoteCommand sys command config True s) = Inl e)"
  by (auto simp: remoteCommand_def split: option.splits prod.splits sum.splits)

theorem remoteCommand_precondition_witness:
  "remoteCommand fakeSys ''ls'' (localConfig\<lparr>remoteUser := Some ''backup''\<rparr>) False
     (initialState emptyWorld) =
     (Inl ''remoteCommand requires remoteUser and remoteHost in configuration'',
      initialState emptyWorld) \<and>
   remoteCommand fakeSys ''ls'' (localConfig\<lparr>remoteUser := Some ''backup''\<rparr>) True
     (initialState emptyWorld) =
     (Inl ''remoteCommand requires remoteUser and remoteHost in configuration'',
      initialState emptyWorld) \<and>
   fst (remoteCommand fakeSys ''ls''
          (localConfig\<lparr>remoteUser := Some ''backup'', remoteHost := Some ''nas''\<rparr>) False
          (initialState emptyWorld)) = Inr []"
proof -
  let ?c = "localConfig\<lparr>remoteUser := Some ''backup''\<rparr>"
  let ?d = "localConfig\<lparr>remoteUser := Some ''backup'', remoteHost := Some ''nas''\<rparr>"
  let ?s = "initialState emptyWorld"
  have h: "remoteHost ?c = None"
    by (simp add: localConfig_def)
  have f: "\<exists>e. fst (executeCommand fakeSys (sshCommand (''backup'' @ ''@'' @ ''nas'') ''ls'') ?s) = Inl e"
    by (simp add: executeCommand_def executeResult_def fakeSys_def initialState_def
          emptyWorld_def)
  have u: "remoteUser ?d = Some ''backup'' \<and> ''backup'' \<noteq> [] \<and>
           remoteHost ?d = Some ''nas'' \<and> ''nas'' \<noteq> []"
    by (simp add: localConfig_def)
  from remoteCommand_precondition [of ?c fakeSys "''ls''" False ?s] h
  have 1: "remoteCommand fakeSys ''ls'' ?c False ?s =
             (Inl ''remoteCommand requires remoteUser and remoteHost in configuration'', ?s)"
    by simp
  from remoteCommand_precondition [of ?c fakeSys "''ls''" True ?s] h
  have 2: "remoteCommand fakeSys ''ls'' ?c True ?s =
             (Inl ''remoteCommand requires remoteUser and remoteHost in configuration'', ?s)"
    by simp
  from remoteCommand_precondition [of ?d fakeSys "''ls''" False ?s] u f
  have 3: "fst (remoteCommand fakeSys ''ls'' ?d False ?s) = Inr []"
    by blast
  from 1 2 3 show ?thesis by blast
qed

lemma typeof_string: "typeof v = ''string'' \<longleftrightarrow> (\<exists>x. v = JStr x)"
  by (cases v) (simp_all add: typeof_def)

lemma typeof_object:
  "typeof v = ''object'' \<longleftrightarrow> v = JNull \<or> (\<exists>vs. v = JArr vs) \<or> (\<exists>kvs. v = JObj kvs)"
  by (cases v) (simp_all add: typeof_def)

lemma optionsToConfig_flags:
  "isRemoteSrc (fst (optionsToConfig sys opts s)) = (remoteRole opts = Some ''src'')"
  "isRemoteDest (fst (optionsToConfig sys opts s)) = (remoteRole opts = Some ''dest'')"
  by (auto simp: optionsToConfig_def Let_def ProgramOptions.extend_def ProgramConfig.fields_def
           split: prod.splits option.splits if_splits)

lemma strProp_JStr: "strProp obj k = Some x \<longleftrightarrow> getProp obj k = JStr x"
  by (cases "getProp obj k") (simp_all add: strProp_def)

lemma optionsToConfigUnknown_Inr:
  assumes "optionsToConfigUnknown sys obj s = (Inr c, s')"
  shows "c = fst (optionsToConfig sys (asProgramOptions sys obj) s)"
  using assms by (auto simp: optionsToConfigUnknown_def Let_def split_beta split: if_splits)

subsection \<open>C4: the remote triple\<close>

text \<open>
  C4. An object with string fields \<^verbatim>\<open>src\<close> and \<^verbatim>\<open>dest\<close> passes \<open>isProgramOptions\<close> if and only
  if either none of \<^verbatim>\<open>remoteRole\<close>, \<^verbatim>\<open>remoteUser\<close>, \<^verbatim>\<open>remoteHost\<close> is present, or
  \<^verbatim>\<open>remoteRole\<close> is \<^verbatim>\<open>src\<close> or \<^verbatim>\<open>dest\<close> and user and host are both strings: a partial triple
  is rejected. For an accepted object, the configuration made of it has \<open>isRemoteSrc\<close> true
  and \<open>isRemoteDest\<close> false when \<^verbatim>\<open>remoteRole\<close> is \<^verbatim>\<open>src\<close>, \<open>isRemoteDest\<close> true and
  \<open>isRemoteSrc\<close> false when it is \<^verbatim>\<open>dest\<close>, and both false when the remote fields are absent.
  And whenever the loader returns a configuration for the object, it is this configuration.
\<close>

theorem remote_triple_complete_or_absent:
  "(isProgramOptions obj \<longleftrightarrow>
      typeof obj = ''object'' \<and> obj \<noteq> JNull \<and>
      (\<exists>x. getProp obj ''src'' = JStr x) \<and> (\<exists>x. getProp obj ''dest'' = JStr x) \<and>
      ((getProp obj ''remoteRole'' = JUndefined \<and> getProp obj ''remoteUser'' = JUndefined \<and>
        getProp obj ''remoteHost'' = JUndefined) \<or>
       ((getProp obj ''remoteRole'' = JStr ''src'' \<or> getProp obj ''remoteRole'' = JStr ''dest'') \<and>
        (\<exists>u. getProp obj ''remoteUser'' = JStr u) \<and> (\<exists>h. getProp obj ''remoteHost'' = JStr h)))) \<and>
   (isProgramOptions obj \<longrightarrow>
      (getProp obj ''remoteRole'' = JStr ''src'' \<longrightarrow>
         isRemoteSrc (fst (optionsToConfig sys (asProgramOptions sys obj) s)) \<and>
         \<not> isRemoteDest (fst (optionsToConfig sys (asProgramOptions sys obj) s))) \<and>
      (getProp obj ''remoteRole'' = JStr ''dest'' \<longrightarrow>
         isRemoteDest (fst (optionsToConfig sys (asProgramOptions sys obj) s)) \<and>
         \<not> isRemoteSrc (fst (optionsToConfig sys (asProgramOptions sys obj) s))) \<and>
      (getProp obj ''remoteRole'' = JUndefined \<and> getProp obj ''remoteUser'' = JUndefined \<and>
       getProp obj ''remoteHost'' = JUndefined \<longrightarrow>
         \<not> isRemoteSrc (fst (optionsToConfig sys (asProgramOptions sys obj) s)) \<and>
         \<not> isRemoteDest (fst (optionsToConfig sys (asProgramOptions sys obj) s)))) \<and>
   (\<forall>c s'. optionsToConfigUnknown sys obj s = (Inr c, s') \<longrightarrow>
      c = fst (optionsToConfig sys (asProgramOptions sys obj) s))"
proof (intro conjI impI allI)
  fix c s'
  assume "optionsToConfigUnknown sys obj s = (Inr c, s')"
  then show "c = fst (optionsToConfig sys (asProgramOptions sys obj) s)"
    by (rule optionsToConfigUnknown_Inr)
next
  show "isProgramOptions obj \<longleftrightarrow>
      typeof obj = ''object'' \<and> obj \<noteq> JNull \<and>
      (\<exists>x. getProp obj ''src'' = JStr x) \<and> (\<exists>x. getProp obj ''dest'' = JStr x) \<and>
      ((getProp obj ''remoteRole'' = JUndefined \<and> getProp obj ''remoteUser'' = JUndefined \<and>
        getProp obj ''remoteHost'' = JUndefined) \<or>
       ((getProp obj ''remoteRole'' = JStr ''src'' \<or> getProp obj ''remoteRole'' = JStr ''dest'') \<and>
        (\<exists>u. getProp obj ''remoteUser'' = JStr u) \<and> (\<exists>h. getProp obj ''remoteHost'' = JStr h)))"
    unfolding isProgramOptions_def Let_def typeof_string by auto
qed (simp_all add: optionsToConfig_flags asProgramOptions_def strProp_def)

theorem remote_triple_complete_or_absent_witness:
  "isProgramOptions remoteSrcObject \<and>
   isRemoteSrc (fst (optionsToConfig fakeSys (asProgramOptions fakeSys remoteSrcObject)
                      (initialState emptyWorld))) \<and>
   \<not> isRemoteDest (fst (optionsToConfig fakeSys (asProgramOptions fakeSys remoteSrcObject)
                          (initialState emptyWorld))) \<and>
   isProgramOptions remoteDestObject \<and>
   isRemoteDest (fst (optionsToConfig fakeSys (asProgramOptions fakeSys remoteDestObject)
                       (initialState emptyWorld))) \<and>
   \<not> isRemoteSrc (fst (optionsToConfig fakeSys (asProgramOptions fakeSys remoteDestObject)
                         (initialState emptyWorld))) \<and>
   isProgramOptions localObject \<and>
   \<not> isRemoteSrc (fst (optionsToConfig fakeSys (asProgramOptions fakeSys localObject)
                         (initialState emptyWorld))) \<and>
   \<not> isRemoteDest (fst (optionsToConfig fakeSys (asProgramOptions fakeSys localObject)
                          (initialState emptyWorld))) \<and>
   \<not> isProgramOptions (JObj [(''src'', JStr ''/tmp/a''), (''dest'', JStr ''/tmp/b''),
                             (''remoteRole'', JStr ''src'')])"
proof -
  let ?s = "initialState emptyWorld"
  let ?partial = "JObj [(''src'', JStr ''/tmp/a''), (''dest'', JStr ''/tmp/b''),
                        (''remoteRole'', JStr ''src'')]"
  have a: "typeof remoteSrcObject = ''object''" "remoteSrcObject \<noteq> JNull"
    "getProp remoteSrcObject ''src'' = JStr ''/var/www''"
    "getProp remoteSrcObject ''dest'' = JStr ''/tmp/b''"
    "getProp remoteSrcObject ''remoteRole'' = JStr ''src''"
    "getProp remoteSrcObject ''remoteUser'' = JStr ''root''"
    "getProp remoteSrcObject ''remoteHost'' = JStr ''example.com''"
    by (simp_all add: remoteSrcObject_def typeof_def getProp_def)
  have b: "typeof remoteDestObject = ''object''" "remoteDestObject \<noteq> JNull"
    "getProp remoteDestObject ''src'' = JStr ''/tmp/a''"
    "getProp remoteDestObject ''dest'' = JStr ''/srv/b''"
    "getProp remoteDestObject ''remoteRole'' = JStr ''dest''"
    "getProp remoteDestObject ''remoteUser'' = JStr ''backup''"
    "getProp remoteDestObject ''remoteHost'' = JStr ''nas''"
    by (simp_all add: remoteDestObject_def typeof_def getProp_def)
  have c: "typeof localObject = ''object''" "localObject \<noteq> JNull"
    "getProp localObject ''src'' = JStr ''/tmp/a''"
    "getProp localObject ''dest'' = JStr ''/tmp/b''"
    "getProp localObject ''remoteRole'' = JUndefined"
    "getProp localObject ''remoteUser'' = JUndefined"
    "getProp localObject ''remoteHost'' = JUndefined"
    by (simp_all add: localObject_def typeof_def getProp_def)
  have d: "getProp ?partial ''remoteRole'' = JStr ''src''"
    "getProp ?partial ''remoteUser'' = JUndefined"
    by (simp_all add: getProp_def)
  from remote_triple_complete_or_absent [of remoteSrcObject fakeSys ?s] a
  have 1: "isProgramOptions remoteSrcObject \<and>
     isRemoteSrc (fst (optionsToConfig fakeSys (asProgramOptions fakeSys remoteSrcObject) ?s)) \<and>
     \<not> isRemoteDest (fst (optionsToConfig fakeSys (asProgramOptions fakeSys remoteSrcObject) ?s))"
    by simp
  from remote_triple_complete_or_absent [of remoteDestObject fakeSys ?s] b
  have 2: "isProgramOptions remoteDestObject \<and>
     isRemoteDest (fst (optionsToConfig fakeSys (asProgramOptions fakeSys remoteDestObject) ?s)) \<and>
     \<not> isRemoteSrc (fst (optionsToConfig fakeSys (asProgramOptions fakeSys remoteDestObject) ?s))"
    by simp
  from remote_triple_complete_or_absent [of localObject fakeSys ?s] c
  have 3: "isProgramOptions localObject \<and>
     \<not> isRemoteSrc (fst (optionsToConfig fakeSys (asProgramOptions fakeSys localObject) ?s)) \<and>
     \<not> isRemoteDest (fst (optionsToConfig fakeSys (asProgramOptions fakeSys localObject) ?s))"
    by simp
  from remote_triple_complete_or_absent [of ?partial fakeSys ?s] d
  have 4: "\<not> isProgramOptions ?partial"
    by simp
  from 1 2 3 4 show ?thesis by blast
qed

lemma quiet_refl: "quiet s s"
  by (simp add: quiet_def)




lemma quiet_newLogger: "quiet s (snd (newLogger sys p s))"
  by (simp add: quiet_def newLogger_def Let_def isSyncInvocation_def
        split: prod.splits option.splits)

lemma quiet_getLogger: "quiet s (snd (getLogger sys opts s))"
proof (cases "loggerInstance s")
  case None
  obtain lg s' where n: "newLogger sys (logFile opts) s = (lg, s')"
    by (cases "newLogger sys (logFile opts) s")
  with quiet_newLogger [of s sys "logFile opts"] have "quiet s s'" by simp
  then have "quiet s (s'\<lparr>loggerInstance := Some lg\<rparr>)" by (simp add: quiet_def)
  with None n show ?thesis by (simp add: getLogger_def)
next
  case (Some lg)
  then show ?thesis by (simp add: getLogger_def quiet_refl)
qed









lemma main_backup_rejects:
  assumes "getConfig sys s = (Return cfg, sc)" and "backup sys cfg sc = (Inl e, s')"
  shows "main sys s = (1, s'\<lparr>trace := trace s' @ [Console ErrorT (''Backup failed: '' @ e)]\<rparr>)"
  using assms by (simp add: main_def backupRun_def)

subsection \<open>C8: a source that does not exist\<close>



lemma remoteCommand_quiet_failure:
  assumes "fst (remoteCommand sys command config True s) = Inl e"
  shows "fst (remoteCommand sys command config False s) = Inr [] \<or>
         fst (remoteCommand sys command config False s) =
           Inl ''remoteCommand requires remoteUser and remoteHost in configuration''"
  using assms
  by (auto simp: remoteCommand_def Let_def split: option.splits prod.splits sum.splits if_splits)

lemma getLatestBackupDir_resolves: "\<exists>r. fst (getLatestBackupDir sys cfg s) = Inr r"
  by (auto simp: getLatestBackupDir_def Let_def split: prod.splits sum.splits)

lemma backup_destination_uncreatable:
  assumes "clock sys (world s) = (now, w0)"
    and "existsSrcPath sys cfg (s\<lparr>world := w0\<rparr>) = (Inr True, s1)"
    and "existsDestPath sys cfg s1 = (Inr False, s2)"
    and "createDestDir sys cfg s2 = (Inl e, s3)"
  shows "backup sys cfg s =
           (Inl (''Destination directory \"'' @ dest cfg @
                 ''\" does not exist and could not be created.''), s3)"
  using assms by (simp add: backup_def Let_def)

subsection \<open>C6: which transport failures propagate\<close>

text \<open>
  C6. A failure of the command of the remote probe resolves to false, and a failure of the
  remote listing to no snapshot: \<open>getLatestBackupDir\<close> never rejects. A failure of the remote
  \<^verbatim>\<open>mkdir -p\<close>, which is the one call of \<open>remoteCommand\<close> with \<open>throwError\<close>, makes
  \<open>createDestDir\<close> reject with that error; then \<open>backup\<close> rejects with the message that the
  destination does not exist and could not be created, and the process exits with status 1.
\<close>

theorem transport_failure_policy:
  "(\<forall>e. fst (executeCommand sys (remoteExistsCmd u h p) s) = Inl e \<longrightarrow>
        fst (remoteExists sys u h p s) = Inr False) \<and>
   (\<exists>r. fst (getLatestBackupDir sys cfg s) = Inr r) \<and>
   (\<forall>e. isRemoteDest cfg \<and> fst (remoteCommand sys (lsCmd cfg) cfg True s) = Inl e \<longrightarrow>
        fst (getLatestBackupDir sys cfg s) = Inr None) \<and>
   (\<forall>e. isRemoteDest cfg \<and>
        fst (remoteCommand sys (mkdirCmd (dest cfg)) cfg True s) = Inl e \<longrightarrow>
        fst (createDestDir sys cfg s) = Inl e) \<and>
   (\<forall>now w0 s1 s2 e s3 s0. clock sys (world s) = (now, w0) \<and>
        existsSrcPath sys cfg (s\<lparr>world := w0\<rparr>) = (Inr True, s1) \<and>
        existsDestPath sys cfg s1 = (Inr False, s2) \<and>
        createDestDir sys cfg s2 = (Inl e, s3) \<longrightarrow>
        backup sys cfg s =
          (Inl (''Destination directory \"'' @ dest cfg @
                ''\" does not exist and could not be created.''), s3) \<and>
        (getConfig sys s0 = (Return cfg, s) \<longrightarrow> fst (main sys s0) = 1))"
proof (intro conjI allI impI)
  fix e
  assume "fst (executeCommand sys (remoteExistsCmd u h p) s) = Inl e"
  then show "fst (remoteExists sys u h p s) = Inr False"
    by (auto simp: remoteExists_def split: prod.splits sum.splits)
next
  show "\<exists>r. fst (getLatestBackupDir sys cfg s) = Inr r"
    by (rule getLatestBackupDir_resolves)
next
  fix e
  assume a: "isRemoteDest cfg \<and> fst (remoteCommand sys (lsCmd cfg) cfg True s) = Inl e"
  with remoteCommand_quiet_failure [of sys "lsCmd cfg" cfg s e]
  show "fst (getLatestBackupDir sys cfg s) = Inr None"
    by (auto simp: getLatestBackupDir_def split: prod.splits sum.splits)
next
  fix e
  assume "isRemoteDest cfg \<and> fst (remoteCommand sys (mkdirCmd (dest cfg)) cfg True s) = Inl e"
  then show "fst (createDestDir sys cfg s) = Inl e"
    by (auto simp: createDestDir_def split: prod.splits sum.splits)
next
  fix now w0 s1 s2 e s3 s0
  assume a: "clock sys (world s) = (now, w0) \<and>
        existsSrcPath sys cfg (s\<lparr>world := w0\<rparr>) = (Inr True, s1) \<and>
        existsDestPath sys cfg s1 = (Inr False, s2) \<and>
        createDestDir sys cfg s2 = (Inl e, s3)"
  then have 1: "clock sys (world s) = (now, w0)"
    and 2: "existsSrcPath sys cfg (s\<lparr>world := w0\<rparr>) = (Inr True, s1)"
    and 3: "existsDestPath sys cfg s1 = (Inr False, s2)"
    and 4: "createDestDir sys cfg s2 = (Inl e, s3)"
    by simp_all
  from 1 2 3 4 show b: "backup sys cfg s =
          (Inl (''Destination directory \"'' @ dest cfg @
                ''\" does not exist and could not be created.''), s3)"
    by (rule backup_destination_uncreatable)
  assume "getConfig sys s0 = (Return cfg, s)"
  from main_backup_rejects [OF this b] show "fst (main sys s0) = 1"
    by simp
qed

theorem transport_failure_policy_witness:
  "fst (remoteExists fakeSys ''backup'' ''nas'' ''/srv/b'' (initialState unreachableWorld)) =
     Inr False \<and>
   fst (getLatestBackupDir fakeSys remoteDestConfig (initialState unreachableWorld)) = Inr None \<and>
   (\<exists>e. fst (createDestDir fakeSys remoteDestConfig (initialState unreachableWorld)) = Inl e) \<and>
   fst (backup fakeSys remoteDestConfig (initialState unreachableWorld)) =
     Inl ''Destination directory \"/srv/b\" does not exist and could not be created.''"
proof -
  let ?s = "initialState unreachableWorld"
  let ?w0 = "unreachableWorld\<lparr>time := 1763926246123\<rparr>"
  let ?s1 = "?s\<lparr>world := ?w0\<rparr>"
  let ?s2 = "snd (existsDestPath fakeSys remoteDestConfig ?s1)"
  let ?s3 = "snd (createDestDir fakeSys remoteDestConfig ?s2)"
  note cfg = remoteDestConfig_def localConfig_def
  note wld = initialState_def unreachableWorld_def
  have p: "\<exists>e. fst (executeCommand fakeSys (remoteExistsCmd ''backup'' ''nas'' ''/srv/b'') ?s) = Inl e"
    by (simp add: executeCommand_def executeResult_def fakeSys_def wld)
  have rd: "isRemoteDest remoteDestConfig" "dest remoteDestConfig = ''/srv/b''"
    by (simp_all add: cfg)
  have l: "\<exists>e. fst (remoteCommand fakeSys (lsCmd remoteDestConfig) remoteDestConfig True ?s) = Inl e"
    by (simp add: remoteCommand_def executeCommand_def executeResult_def fakeSys_def wld cfg
          Let_def)
  have m: "\<exists>e. fst (remoteCommand fakeSys (mkdirCmd (dest remoteDestConfig)) remoteDestConfig True ?s)
             = Inl e"
    by (simp add: remoteCommand_def executeCommand_def executeResult_def fakeSys_def wld cfg
          Let_def)
  have c: "clock fakeSys (world ?s) = (1763926245123, ?w0)"
    by (simp add: fakeSys_def wld)
  have x: "existsSrcPath fakeSys remoteDestConfig ?s1 = (Inr True, ?s1)"
    by (simp add: existsSrcPath_def existsPath_def fakeSys_def wld cfg)
  have "fst (existsDestPath fakeSys remoteDestConfig ?s1) = Inr False"
    by (simp add: existsDestPath_def existsPath_def remoteExists_def executeCommand_def
          executeResult_def fakeSys_def wld cfg)
  then have y: "existsDestPath fakeSys remoteDestConfig ?s1 = (Inr False, ?s2)"
    by (simp add: prod_eq_iff)
  have "\<exists>e. fst (createDestDir fakeSys remoteDestConfig ?s2) = Inl e"
    by (simp add: createDestDir_def remoteCommand_def existsDestPath_def existsPath_def
          remoteExists_def executeCommand_def executeResult_def fakeSys_def wld cfg Let_def)
  then obtain e where z: "createDestDir fakeSys remoteDestConfig ?s2 = (Inl e, ?s3)"
    by (auto simp: prod_eq_iff)
  note inst = transport_failure_policy
    [of fakeSys "''backup''" "''nas''" "''/srv/b''" ?s remoteDestConfig]
  from inst p have 1: "fst (remoteExists fakeSys ''backup'' ''nas'' ''/srv/b'' ?s) = Inr False"
    by blast
  from inst rd l have 2: "fst (getLatestBackupDir fakeSys remoteDestConfig ?s) = Inr None"
    by blast
  from inst rd m have 3: "\<exists>e. fst (createDestDir fakeSys remoteDestConfig ?s) = Inl e"
    by blast
  from inst [THEN conjunct2, THEN conjunct2, THEN conjunct2, THEN conjunct2, rule_format,
             OF conjI [OF c conjI [OF x conjI [OF y z]]]]
  have "backup fakeSys remoteDestConfig ?s =
      (Inl (''Destination directory \"'' @ dest remoteDestConfig @
            ''\" does not exist and could not be created.''), ?s3)"
    by (rule conjunct1)
  then have 4: "fst (backup fakeSys remoteDestConfig ?s) =
      Inl ''Destination directory \"/srv/b\" does not exist and could not be created.''"
    by (simp add: rd)
  from 1 2 3 4 show ?thesis by blast
qed

lemma main_trace_backup:
  assumes "getConfig sys s = (Return cfg, sc)" and "e \<in> set (trace (snd (backup sys cfg sc)))"
  shows "e \<in> set (trace (snd (main sys s)))"
proof -
  obtain r s' where b: "backup sys cfg sc = (r, s')"
    by (cases "backup sys cfg sc")
  with assms show ?thesis
    by (cases r) (simp_all add: main_def backupRun_def)
qed

subsection \<open>C1: the flags for the prefix and for the rsync options\<close>

text \<open>
  C1 does not hold of the code. \<open>parseConfigFromArgs\<close> declares eight options, and neither
  \<^verbatim>\<open>-p, --backup-prefix\<close> nor \<^verbatim>\<open>-o, --rsync-options\<close> is among them: on the scripted system,
  whose Commander rejects an option that was not declared, a run with \<^verbatim>\<open>-p WEB-\<close> or with
  \<^verbatim>\<open>-o az\<close> exits with status 1 and does nothing. And no allow-list is applied to
  \<^verbatim>\<open>rsyncOptions\<close>: a configuration file with \<^verbatim>\<open>"rsyncOptions": "av"\<close> passes the guard, and
  the command that is run is \<^verbatim>\<open>rsync -av --delete ...\<close>, with the flag \<^verbatim>\<open>v\<close> that is not one
  of \<^verbatim>\<open>a\<close>, \<^verbatim>\<open>z\<close>, \<^verbatim>\<open>c\<close>.
\<close>

theorem prefix_and_options_flags_missing:
  "map (\<lambda>d. (shortFlag (fst d), longFlag (fst d))) declaredOptions =
     [(''-c'', ''--config''), (''-s'', ''--src''), (''-d'', ''--dest''),
      (''-R'', ''--remote-role''), (''-U'', ''--remote-user''), (''-H'', ''--remote-host''),
      (''-e'', ''--exclude-from''), (''-l'', ''--log-file'')] \<and>
   main fakeSys (initialState prefixFlagWorld) = (1, initialState prefixFlagWorld) \<and>
   main fakeSys (initialState optionsFlagWorld) = (1, initialState optionsFlagWorld) \<and>
   isProgramOptions (JObj [(''src'', JStr ''/tmp/a''), (''dest'', JStr ''/tmp/b''),
                           (''rsyncOptions'', JStr ''av'')]) \<and>
   Spawn ''rsync -av --delete  \"/tmp/a/\" \"/tmp/b/BACKUP-2025-11-23T193045/\"''
     \<in> set (trace (snd (main fakeSys (initialState verboseWorld))))"
proof (intro conjI)
  show "map (\<lambda>d. (shortFlag (fst d), longFlag (fst d))) declaredOptions =
     [(''-c'', ''--config''), (''-s'', ''--src''), (''-d'', ''--dest''),
      (''-R'', ''--remote-role''), (''-U'', ''--remote-user''), (''-H'', ''--remote-host''),
      (''-e'', ''--exclude-from''), (''-l'', ''--log-file'')]"
    by (simp add: declaredOptions_def shortFlag_def longFlag_def)
next
  have "fakeCommander declaredOptions (args prefixFlagWorld) = Inl 1"
    by (simp add: fakeCommander_def declaredOptions_def prefixFlagWorld_def findOption_def
          shortFlag_def longFlag_def upperChar_def)
  then show "main fakeSys (initialState prefixFlagWorld) = (1, initialState prefixFlagWorld)"
    by (simp add: main_def backupRun_def getConfig_def parseConfigFromArgs_def fakeSys_def
          initialState_def)
       (simp add: prefixFlagWorld_def)
next
  have "fakeCommander declaredOptions (args optionsFlagWorld) = Inl 1"
    by (simp add: fakeCommander_def declaredOptions_def optionsFlagWorld_def findOption_def
          shortFlag_def longFlag_def upperChar_def)
  then show "main fakeSys (initialState optionsFlagWorld) = (1, initialState optionsFlagWorld)"
    by (simp add: main_def backupRun_def getConfig_def parseConfigFromArgs_def fakeSys_def
          initialState_def)
       (simp add: optionsFlagWorld_def)
next
  show "isProgramOptions (JObj [(''src'', JStr ''/tmp/a''), (''dest'', JStr ''/tmp/b''),
                                (''rsyncOptions'', JStr ''av'')])"
    by (simp add: isProgramOptions_def typeof_def getProp_def)
next
  let ?s = "initialState verboseWorld"
  let ?lg = "\<lparr>logFilePath = None, stream = None\<rparr>"
  let ?cfg = "localConfig\<lparr>rsyncOptions := Some ''av''\<rparr>"
  let ?sc = "?s\<lparr>loggerInstance := Some ?lg, configCache := Some ?cfg\<rparr>"
  have j: "isProgramOptions (JObj [(''src'', JStr ''/tmp/a''), (''dest'', JStr ''/tmp/b''),
                                   (''rsyncOptions'', JStr ''av'')])"
    by (simp add: isProgramOptions_def typeof_def getProp_def)
  have g: "getConfig fakeSys ?s = (Return ?cfg, ?sc)"
    by (simp add: getConfig_def parseConfigFromArgs_def readConfigFromJSON_def fakeSys_def
          initialState_def verboseWorld_def fakeJSON_def j optionsToConfigUnknown_def truthy_def
          typeof_def optionsToConfig_def getLogger_def newLogger_def asProgramOptions_def
          strProp_def tmplProp_def getProp_def localConfig_def
          ProgramOptions.extend_def ProgramConfig.fields_def Let_def)
  have b: "Spawn ''rsync -av --delete  \"/tmp/a/\" \"/tmp/b/BACKUP-2025-11-23T193045/\"''
             \<in> set (trace (snd (backup fakeSys ?cfg ?sc)))"
    by (simp add: run_defs initialState_def verboseWorld_def localConfig_def suffix_2025)
  show "Spawn ''rsync -av --delete  \"/tmp/a/\" \"/tmp/b/BACKUP-2025-11-23T193045/\"''
          \<in> set (trace (snd (main fakeSys ?s)))"
    using g b by (rule main_trace_backup)
qed

theorem prefix_and_options_flags_missing_witness:
  "fst (main fakeSys (initialState prefixFlagWorld)) = 1 \<and>
   fst (main fakeSys (initialState optionsFlagWorld)) = 1 \<and>
   isProgramOptions (JObj [(''src'', JStr ''/tmp/a''), (''dest'', JStr ''/tmp/b''),
                           (''rsyncOptions'', JStr ''av'')]) \<and>
   (\<exists>e \<in> set (trace (snd (main fakeSys (initialState verboseWorld)))). isSyncInvocation e)"
proof -
  note t = prefix_and_options_flags_missing
  from t have 1: "fst (main fakeSys (initialState prefixFlagWorld)) = 1"
    by simp
  from t have 2: "fst (main fakeSys (initialState optionsFlagWorld)) = 1"
    by simp
  from t have 3: "isProgramOptions (JObj [(''src'', JStr ''/tmp/a''), (''dest'', JStr ''/tmp/b''),
                           (''rsyncOptions'', JStr ''av'')])"
    by (rule conjunct2 [THEN conjunct2, THEN conjunct2, THEN conjunct1])
  have "isSyncInvocation
          (Spawn ''rsync -av --delete  \"/tmp/a/\" \"/tmp/b/BACKUP-2025-11-23T193045/\"'')"
    by (simp add: isSyncInvocation_def)
  with t have 4: "\<exists>e \<in> set (trace (snd (main fakeSys (initialState verboseWorld)))).
                    isSyncInvocation e"
    by blast
  from 1 2 3 4 show ?thesis by blast
qed

lemma getLogger_trace: "\<exists>evs. trace (snd (getLogger sys opts s)) = trace s @ evs"
  using quiet_getLogger [of s sys opts] unfolding quiet_def by blast

lemma optionsToConfig_missing_exclude:
  assumes "excludeFrom opts = Some e" and "e \<noteq> []"
    and "getLogger sys opts s = (lg, s1)"
    and "\<not> existsSync sys excludeFrom' (world s1)"
    and "excludeFrom' = (if pathIsAbsolute sys e then e else pathJoin sys (cwd sys (world s1)) e)"
  shows "excludeFrom (fst (optionsToConfig sys opts s)) = None"
    and "\<exists>t. Console WarnT (''['' @ toISOString t @ ''] Exclude file not found: '' @ excludeFrom')
           \<in> set (drop (length (trace s)) (trace (snd (optionsToConfig sys opts s))))"
proof -
  from assms show "excludeFrom (fst (optionsToConfig sys opts s)) = None"
    by (simp add: optionsToConfig_def Let_def ProgramOptions.extend_def ProgramConfig.fields_def
          split: prod.splits)
  obtain t w' where c: "clock sys (world s1) = (t, w')"
    by (cases "clock sys (world s1)")
  from getLogger_trace [of sys opts s] assms(3) obtain evs where g: "trace s1 = trace s @ evs"
    by auto
  from assms c have "snd (optionsToConfig sys opts s) =
      logWrite sys lg (''Exclude file not found: '' @ excludeFrom') WarnT s1"
    by (simp add: optionsToConfig_def Let_def logger_warn_def split: prod.splits)
  with c g have "Console WarnT (''['' @ toISOString t @ ''] Exclude file not found: '' @ excludeFrom')
      \<in> set (drop (length (trace s)) (trace (snd (optionsToConfig sys opts s))))"
    by (simp add: logWrite_def Let_def)
  then show "\<exists>t. Console WarnT
        (''['' @ toISOString t @ ''] Exclude file not found: '' @ excludeFrom')
      \<in> set (drop (length (trace s)) (trace (snd (optionsToConfig sys opts s))))"
    by blast
qed

lemma optionsToConfigUnknown_typed:
  assumes "typeof (getProp obj ''logFile'') = ''string'' \<or> \<not> truthy (getProp obj ''logFile'')"
    and "typeof (getProp obj ''excludeFrom'') = ''string'' \<or>
         \<not> truthy (getProp obj ''excludeFrom'')"
  shows "optionsToConfigUnknown sys obj s =
           (Inr (fst (optionsToConfig sys (asProgramOptions sys obj) s)),
            snd (optionsToConfig sys (asProgramOptions sys obj) s))"
  using assms by (auto simp: optionsToConfigUnknown_def Let_def split_beta)

lemma readConfigFromJSON_accepted:
  assumes "existsSync sys configPath (world s)"
    and "readFileSync sys configPath (world s) = Inr rawData"
    and "jsonParse sys rawData = Some obj"
    and "isProgramOptions obj"
    and "optionsToConfigUnknown sys obj s = (Inr c, s')"
    and "configPath = (if configFilePath \<noteq> [] then configFilePath
                       else pathJoin sys (cwd sys (world s)) ''.incback'')"
  shows "readConfigFromJSON sys configFilePath s = (Return c, s')"
proof -
  have "readConfigFromJSON sys configFilePath s =
     (if existsSync sys configPath (world s) then
        (case readFileSync sys configPath (world s) of
           Inl message \<Rightarrow> (Throw message, s)
         | Inr rawData \<Rightarrow>
             (case jsonParse sys rawData of
                None \<Rightarrow> (Throw ''Invalid .incback configuration file'', s)
              | Some config \<Rightarrow>
                  if \<not> isProgramOptions config then
                    (Throw ''Invalid .incback configuration file'', s)
                  else (case optionsToConfigUnknown sys config s of
                          (Inr c, s') \<Rightarrow> (Return c, s')
                        | (Inl message, s') \<Rightarrow> (Throw message, s'))))
      else (Throw (''Configuration file .incback not found in '' @ cwd sys (world s)), s))"
    unfolding readConfigFromJSON_def assms(6) Let_def by (rule refl)
  with assms(1-5) show ?thesis by simp
qed

lemma getConfig_default_file:
  assumes "configCache s = None"
    and "length (argv sys (world s)) \<le> 2"
    and "readConfigFromJSON sys [] s = (Return c, s')"
  shows "getConfig sys s = (Return c, s'\<lparr>configCache := Some c\<rparr>)"
  using assms by (simp add: getConfig_def parseConfigFromArgs_def)

lemma getConfig_named_file:
  assumes "configCache s = None"
    and "2 < length (argv sys (world s))"
    and "commanderParse sys declaredOptions (argv sys (world s)) = Inr options"
    and "getProp options ''config'' = JStr p" and "p \<noteq> []"
    and "readConfigFromJSON sys p s = (Return c, s')"
  shows "getConfig sys s = (Return c, s'\<lparr>configCache := Some c\<rparr>)"
  using assms by (simp add: getConfig_def parseConfigFromArgs_def typeof_def strProp_def)

lemma getConfig_inline:
  assumes "configCache s = None"
    and "2 < length (argv sys (world s))"
    and "commanderParse sys declaredOptions (argv sys (world s)) = Inr obj"
    and "getProp obj ''config'' = JStr [] \<or> typeof (getProp obj ''config'') \<noteq> ''string''"
    and "isProgramOptions obj"
    and "optionsToConfigUnknown sys obj s = (Inr c, s')"
  shows "getConfig sys s = (Return c, s'\<lparr>configCache := Some c\<rparr>)"
  using assms by (auto simp: getConfig_def parseConfigFromArgs_def)

subsection \<open>C9: an exclude file that does not exist\<close>

text \<open>
  C9 as it stands does not hold: a configuration that names an exclude file which does not
  exist may still fail to load, for a reason of its own. The file \<^verbatim>\<open>.incback\<close> with
  \<^verbatim>\<open>"excludeFrom": "skip.txt"\<close> and \<^verbatim>\<open>"logFile": 5\<close> passes the guard, which does not look at
  \<^verbatim>\<open>logFile\<close>; the constructor of \<^verbatim>\<open>Logger\<close> then gives the number to \<^verbatim>\<open>path.isAbsolute\<close>, which
  throws, and \<open>getConfig\<close> prints the startup error and ends the process with status 1.
\<close>

theorem missing_exclude_file_dropped_counterexample:
  "isProgramOptions (JObj [(''src'', JStr ''/tmp/a''), (''dest'', JStr ''/tmp/b''),
                           (''excludeFrom'', JStr ''skip.txt''), (''logFile'', JNum 5)]) \<and>
   \<not> existsSync fakeSys ''/home/user/skip.txt'' numericLogFileWorld \<and>
   getConfig fakeSys (initialState numericLogFileWorld) =
     (ProcExit 1,
      (initialState numericLogFileWorld)
        \<lparr>trace := [Console ErrorT ''Startup error: The \"path\" argument must be of type string. Received type number (5)'']\<rparr>) \<and>
   fst (main fakeSys (initialState numericLogFileWorld)) = 1"
proof -
  have five: "showInt 5 = ''5''"
    by code_simp
  have i: "isProgramOptions (JObj [(''src'', JStr ''/tmp/a''), (''dest'', JStr ''/tmp/b''),
                           (''excludeFrom'', JStr ''skip.txt''), (''logFile'', JNum 5)])"
    by (simp add: isProgramOptions_def typeof_def getProp_def)
  have x: "\<not> existsSync fakeSys ''/home/user/skip.txt'' numericLogFileWorld"
    by (simp add: fakeSys_def numericLogFileWorld_def)
  have g: "getConfig fakeSys (initialState numericLogFileWorld) =
     (ProcExit 1,
      (initialState numericLogFileWorld)
        \<lparr>trace := [Console ErrorT ''Startup error: The \"path\" argument must be of type string. Received type number (5)'']\<rparr>)"
    by (simp add: getConfig_def parseConfigFromArgs_def readConfigFromJSON_def fakeSys_def
          initialState_def numericLogFileWorld_def fakeJSON_def i optionsToConfigUnknown_def
          truthy_def typeof_def getProp_def fakeReceived_def five Let_def)
  then have m: "fst (main fakeSys (initialState numericLogFileWorld)) = 1"
    by (simp add: main_def backupRun_def)
  from i x g m show ?thesis by blast
qed

text \<open>
  C9, amended. Let \<open>getConfig\<close> load the configuration (nothing is cached yet) from an
  object that passed the guard, reached in any of the three ways there are: the file
  \<^verbatim>\<open>.incback\<close> of the working directory when the command line has no arguments, the file
  named by \<^verbatim>\<open>--config\<close>, or the options of the command line themselves. Let the object carry
  a non-empty string as \<^verbatim>\<open>excludeFrom\<close> whose absolute form (the path itself when it is
  absolute, otherwise joined to the working directory) does not exist when
  \<open>optionsToConfig\<close> checks it, which is after the logger was made; and let \<^verbatim>\<open>logFile\<close> be a
  string, or absent or another falsy value. Then \<open>getConfig\<close> returns a configuration; the
  configuration has no \<open>excludeFrom\<close>; and during the call the warning
  \<^verbatim>\<open>Exclude file not found:\<close> followed by the absolute path was written to the console.
\<close>

theorem missing_exclude_file_dropped:
  assumes cache: "configCache s = None"
    and route:
      "(length (argv sys (world s)) \<le> 2 \<and>
        existsSync sys (pathJoin sys (cwd sys (world s)) ''.incback'') (world s) \<and>
        readFileSync sys (pathJoin sys (cwd sys (world s)) ''.incback'') (world s) = Inr rawData \<and>
        jsonParse sys rawData = Some obj) \<or>
       (2 < length (argv sys (world s)) \<and>
        commanderParse sys declaredOptions (argv sys (world s)) = Inr options \<and>
        getProp options ''config'' = JStr p \<and> p \<noteq> [] \<and>
        existsSync sys p (world s) \<and> readFileSync sys p (world s) = Inr rawData \<and>
        jsonParse sys rawData = Some obj) \<or>
       (2 < length (argv sys (world s)) \<and>
        commanderParse sys declaredOptions (argv sys (world s)) = Inr obj \<and>
        (getProp obj ''config'' = JStr [] \<or> typeof (getProp obj ''config'') \<noteq> ''string''))"
    and guard: "isProgramOptions obj"
    and exclude: "getProp obj ''excludeFrom'' = JStr e" "e \<noteq> []"
    and log: "typeof (getProp obj ''logFile'') = ''string'' \<or> \<not> truthy (getProp obj ''logFile'')"
    and logger: "getLogger sys (asProgramOptions sys obj) s = (lg, s1)"
    and missing: "\<not> existsSync sys (if pathIsAbsolute sys e then e
                                       else pathJoin sys (cwd sys (world s1)) e) (world s1)"
  shows "\<exists>c s'. getConfig sys s = (Return c, s') \<and> excludeFrom c = None \<and>
           (\<exists>t. Console WarnT
                  (''['' @ toISOString t @ ''] Exclude file not found: '' @
                   (if pathIsAbsolute sys e then e else pathJoin sys (cwd sys (world s1)) e))
                \<in> set (drop (length (trace s)) (trace s')))"
proof -
  define opts where "opts = asProgramOptions sys obj"
  define excludeFrom' where
    "excludeFrom' = (if pathIsAbsolute sys e then e else pathJoin sys (cwd sys (world s1)) e)"
  define c where "c = fst (optionsToConfig sys opts s)"
  define s' where "s' = snd (optionsToConfig sys opts s)"
  from exclude(1) have ex: "excludeFrom opts = Some e"
    by (simp add: opts_def asProgramOptions_def strProp_def)
  from logger have lg: "getLogger sys opts s = (lg, s1)"
    by (simp add: opts_def)
  from missing have mi: "\<not> existsSync sys excludeFrom' (world s1)"
    by (simp add: excludeFrom'_def)
  have dropped: "excludeFrom c = None"
    unfolding c_def using ex exclude(2) lg mi excludeFrom'_def
    by (rule optionsToConfig_missing_exclude(1))
  have warned: "\<exists>t. Console WarnT
        (''['' @ toISOString t @ ''] Exclude file not found: '' @ excludeFrom')
      \<in> set (drop (length (trace s)) (trace s'))"
    unfolding s'_def using ex exclude(2) lg mi excludeFrom'_def
    by (rule optionsToConfig_missing_exclude(2))
  from exclude(1) have "typeof (getProp obj ''excludeFrom'') = ''string''"
    by (simp add: typeof_def)
  with log have u: "optionsToConfigUnknown sys obj s = (Inr c, s')"
    unfolding c_def s'_def opts_def by (simp add: optionsToConfigUnknown_typed)
  have "getConfig sys s = (Return c, s'\<lparr>configCache := Some c\<rparr>)"
    using route
  proof (elim disjE conjE)
    assume a: "length (argv sys (world s)) \<le> 2"
      "existsSync sys (pathJoin sys (cwd sys (world s)) ''.incback'') (world s)"
      "readFileSync sys (pathJoin sys (cwd sys (world s)) ''.incback'') (world s) = Inr rawData"
      "jsonParse sys rawData = Some obj"
    from a(2-4) guard u have "readConfigFromJSON sys [] s = (Return c, s')"
      by (rule readConfigFromJSON_accepted) simp
    with cache a(1) show ?thesis
      by (rule getConfig_default_file)
  next
    assume a: "2 < length (argv sys (world s))"
      "commanderParse sys declaredOptions (argv sys (world s)) = Inr options"
      "getProp options ''config'' = JStr p" "p \<noteq> []"
      "existsSync sys p (world s)" "readFileSync sys p (world s) = Inr rawData"
      "jsonParse sys rawData = Some obj"
    from a(5-7) guard u have "readConfigFromJSON sys p s = (Return c, s')"
      by (rule readConfigFromJSON_accepted) (simp add: a(4))
    with cache a(1-4) show ?thesis
      by (rule getConfig_named_file)
  next
    assume a: "2 < length (argv sys (world s))"
      "commanderParse sys declaredOptions (argv sys (world s)) = Inr obj"
      "getProp obj ''config'' = JStr []"
    then have "getProp obj ''config'' = JStr [] \<or> typeof (getProp obj ''config'') \<noteq> ''string''"
      by simp
    with cache a(1,2) show ?thesis
      using guard u by (rule getConfig_inline)
  next
    assume a: "2 < length (argv sys (world s))"
      "commanderParse sys declaredOptions (argv sys (world s)) = Inr obj"
      "typeof (getProp obj ''config'') \<noteq> ''string''"
    then have "getProp obj ''config'' = JStr [] \<or> typeof (getProp obj ''config'') \<noteq> ''string''"
      by simp
    with cache a(1,2) show ?thesis
      using guard u by (rule getConfig_inline)
  qed
  moreover have "trace (s'\<lparr>configCache := Some c\<rparr>) = trace s'"
    by simp
  ultimately have "getConfig sys s = (Return c, s'\<lparr>configCache := Some c\<rparr>) \<and>
      excludeFrom c = None \<and>
      (\<exists>t. Console WarnT (''['' @ toISOString t @ ''] Exclude file not found: '' @ excludeFrom')
         \<in> set (drop (length (trace s)) (trace (s'\<lparr>configCache := Some c\<rparr>))))"
    using dropped warned by simp
  then show ?thesis
    unfolding excludeFrom'_def by blast
qed

theorem missing_exclude_file_dropped_witness:
  "(\<exists>c s'. getConfig fakeSys (initialState excludeWorld) = (Return c, s') \<and>
      excludeFrom c = None \<and>
      (\<exists>t. Console WarnT (''['' @ toISOString t @ ''] Exclude file not found: /home/user/skip.txt'')
         \<in> set (trace s'))) \<and>
   (\<exists>c s'. getConfig fakeSys (initialState configFlagWorld) = (Return c, s') \<and>
      excludeFrom c = None \<and>
      (\<exists>t. Console WarnT (''['' @ toISOString t @ ''] Exclude file not found: /home/user/skip.txt'')
         \<in> set (trace s'))) \<and>
   (\<exists>c s'. getConfig fakeSys (initialState excludeFlagWorld) = (Return c, s') \<and>
      excludeFrom c = None \<and>
      (\<exists>t. Console WarnT (''['' @ toISOString t @ ''] Exclude file not found: /home/user/skip.txt'')
         \<in> set (trace s')))"
proof -
  let ?obj = "JObj [(''src'', JStr ''/tmp/a''), (''dest'', JStr ''/tmp/b''),
                    (''excludeFrom'', JStr ''skip.txt'')]"
  let ?raw = "''{\"src\":\"/tmp/a\",\"dest\":\"/tmp/b\",\"excludeFrom\":\"skip.txt\"}''"
  let ?lg = "\<lparr>logFilePath = None, stream = None\<rparr>"
  let ?named = "JObj [(''config'', JStr ''/etc/incback.json'')]"
  have guard: "isProgramOptions ?obj"
    by (simp add: isProgramOptions_def typeof_def getProp_def)
  have exclude: "getProp ?obj ''excludeFrom'' = JStr ''skip.txt''" "''skip.txt'' \<noteq> []"
    by (simp_all add: getProp_def)
  have log: "typeof (getProp ?obj ''logFile'') = ''string'' \<or> \<not> truthy (getProp ?obj ''logFile'')"
    by (simp add: getProp_def truthy_def)
  have logger: "getLogger fakeSys (asProgramOptions fakeSys ?obj) (initialState w) =
      (?lg, (initialState w)\<lparr>loggerInstance := Some ?lg\<rparr>)" for w
    by (simp add: getLogger_def newLogger_def asProgramOptions_def strProp_def getProp_def
          initialState_def)
  have path: "(if pathIsAbsolute fakeSys ''skip.txt'' then ''skip.txt''
               else pathJoin fakeSys (cwd fakeSys w) ''skip.txt'') = ''/home/user/skip.txt''" for w
    by (simp add: fakeSys_def)
  have start: "configCache (initialState w) = None" "trace (initialState w) = []" for w :: fakeWorld
    by (simp_all add: initialState_def)

  have route1:
    "(length (argv fakeSys (world (initialState excludeWorld))) \<le> 2 \<and>
      existsSync fakeSys (pathJoin fakeSys (cwd fakeSys (world (initialState excludeWorld)))
        ''.incback'') (world (initialState excludeWorld)) \<and>
      readFileSync fakeSys (pathJoin fakeSys (cwd fakeSys (world (initialState excludeWorld)))
        ''.incback'') (world (initialState excludeWorld)) = Inr ?raw \<and>
      jsonParse fakeSys ?raw = Some ?obj) \<or>
     (2 < length (argv fakeSys (world (initialState excludeWorld))) \<and>
      commanderParse fakeSys declaredOptions (argv fakeSys (world (initialState excludeWorld))) =
        Inr JNull \<and>
      getProp JNull ''config'' = JStr [] \<and> [] \<noteq> [] \<and>
      existsSync fakeSys [] (world (initialState excludeWorld)) \<and>
      readFileSync fakeSys [] (world (initialState excludeWorld)) = Inr ?raw \<and>
      jsonParse fakeSys ?raw = Some ?obj) \<or>
     (2 < length (argv fakeSys (world (initialState excludeWorld))) \<and>
      commanderParse fakeSys declaredOptions (argv fakeSys (world (initialState excludeWorld))) =
        Inr ?obj \<and>
      (getProp ?obj ''config'' = JStr [] \<or> typeof (getProp ?obj ''config'') \<noteq> ''string''))"
    by (rule disjI1) (simp add: fakeSys_def initialState_def excludeWorld_def fakeJSON_def)
  have missing1: "\<not> existsSync fakeSys
      (if pathIsAbsolute fakeSys ''skip.txt'' then ''skip.txt''
       else pathJoin fakeSys
              (cwd fakeSys (world ((initialState excludeWorld)\<lparr>loggerInstance := Some ?lg\<rparr>)))
              ''skip.txt'')
      (world ((initialState excludeWorld)\<lparr>loggerInstance := Some ?lg\<rparr>))"
    unfolding path by (simp add: fakeSys_def initialState_def excludeWorld_def)
  from missing_exclude_file_dropped
         [OF start(1) route1 guard exclude log logger missing1]
  have 1: "\<exists>c s'. getConfig fakeSys (initialState excludeWorld) = (Return c, s') \<and>
      excludeFrom c = None \<and>
      (\<exists>t. Console WarnT (''['' @ toISOString t @ ''] Exclude file not found: /home/user/skip.txt'')
         \<in> set (trace s'))"
    unfolding path start(2) by simp

  have parsed2: "fakeCommander declaredOptions (args configFlagWorld) = Inr ?named"
    by (simp add: fakeCommander_def declaredOptions_def configFlagWorld_def findOption_def
          shortFlag_def longFlag_def upperChar_def)
  have route2:
    "(length (argv fakeSys (world (initialState configFlagWorld))) \<le> 2 \<and>
      existsSync fakeSys (pathJoin fakeSys (cwd fakeSys (world (initialState configFlagWorld)))
        ''.incback'') (world (initialState configFlagWorld)) \<and>
      readFileSync fakeSys (pathJoin fakeSys (cwd fakeSys (world (initialState configFlagWorld)))
        ''.incback'') (world (initialState configFlagWorld)) = Inr ?raw \<and>
      jsonParse fakeSys ?raw = Some ?obj) \<or>
     (2 < length (argv fakeSys (world (initialState configFlagWorld))) \<and>
      commanderParse fakeSys declaredOptions (argv fakeSys (world (initialState configFlagWorld))) =
        Inr ?named \<and>
      getProp ?named ''config'' = JStr ''/etc/incback.json'' \<and> ''/etc/incback.json'' \<noteq> [] \<and>
      existsSync fakeSys ''/etc/incback.json'' (world (initialState configFlagWorld)) \<and>
      readFileSync fakeSys ''/etc/incback.json'' (world (initialState configFlagWorld)) =
        Inr ?raw \<and>
      jsonParse fakeSys ?raw = Some ?obj) \<or>
     (2 < length (argv fakeSys (world (initialState configFlagWorld))) \<and>
      commanderParse fakeSys declaredOptions (argv fakeSys (world (initialState configFlagWorld))) =
        Inr ?obj \<and>
      (getProp ?obj ''config'' = JStr [] \<or> typeof (getProp ?obj ''config'') \<noteq> ''string''))"
    apply (rule disjI2)
    apply (rule disjI1)
    apply (simp add: fakeSys_def initialState_def parsed2 getProp_def fakeJSON_def)
    apply (simp add: configFlagWorld_def)
    done
  have missing2: "\<not> existsSync fakeSys
      (if pathIsAbsolute fakeSys ''skip.txt'' then ''skip.txt''
       else pathJoin fakeSys
              (cwd fakeSys (world ((initialState configFlagWorld)\<lparr>loggerInstance := Some ?lg\<rparr>)))
              ''skip.txt'')
      (world ((initialState configFlagWorld)\<lparr>loggerInstance := Some ?lg\<rparr>))"
    unfolding path by (simp add: fakeSys_def initialState_def configFlagWorld_def)
  from missing_exclude_file_dropped
         [OF start(1) route2 guard exclude log logger missing2]
  have 2: "\<exists>c s'. getConfig fakeSys (initialState configFlagWorld) = (Return c, s') \<and>
      excludeFrom c = None \<and>
      (\<exists>t. Console WarnT (''['' @ toISOString t @ ''] Exclude file not found: /home/user/skip.txt'')
         \<in> set (trace s'))"
    unfolding path start(2) by simp

  have upper: "upperChar CHR ''f'' = CHR ''F''"
    by code_simp
  have parsed3: "fakeCommander declaredOptions (args excludeFlagWorld) = Inr ?obj"
    by (simp add: fakeCommander_def declaredOptions_def excludeFlagWorld_def findOption_def
          shortFlag_def longFlag_def upper)
  have route3:
    "(length (argv fakeSys (world (initialState excludeFlagWorld))) \<le> 2 \<and>
      existsSync fakeSys (pathJoin fakeSys (cwd fakeSys (world (initialState excludeFlagWorld)))
        ''.incback'') (world (initialState excludeFlagWorld)) \<and>
      readFileSync fakeSys (pathJoin fakeSys (cwd fakeSys (world (initialState excludeFlagWorld)))
        ''.incback'') (world (initialState excludeFlagWorld)) = Inr ?raw \<and>
      jsonParse fakeSys ?raw = Some ?obj) \<or>
     (2 < length (argv fakeSys (world (initialState excludeFlagWorld))) \<and>
      commanderParse fakeSys declaredOptions (argv fakeSys (world (initialState excludeFlagWorld))) =
        Inr JNull \<and>
      getProp JNull ''config'' = JStr [] \<and> [] \<noteq> [] \<and>
      existsSync fakeSys [] (world (initialState excludeFlagWorld)) \<and>
      readFileSync fakeSys [] (world (initialState excludeFlagWorld)) = Inr ?raw \<and>
      jsonParse fakeSys ?raw = Some ?obj) \<or>
     (2 < length (argv fakeSys (world (initialState excludeFlagWorld))) \<and>
      commanderParse fakeSys declaredOptions (argv fakeSys (world (initialState excludeFlagWorld))) =
        Inr ?obj \<and>
      (getProp ?obj ''config'' = JStr [] \<or> typeof (getProp ?obj ''config'') \<noteq> ''string''))"
    apply (rule disjI2)
    apply (rule disjI2)
    apply (simp add: fakeSys_def initialState_def parsed3 getProp_def typeof_def)
    apply (simp add: excludeFlagWorld_def)
    done
  have missing3: "\<not> existsSync fakeSys
      (if pathIsAbsolute fakeSys ''skip.txt'' then ''skip.txt''
       else pathJoin fakeSys
              (cwd fakeSys (world ((initialState excludeFlagWorld)\<lparr>loggerInstance := Some ?lg\<rparr>)))
              ''skip.txt'')
      (world ((initialState excludeFlagWorld)\<lparr>loggerInstance := Some ?lg\<rparr>))"
    unfolding path by (simp add: fakeSys_def initialState_def excludeFlagWorld_def)
  from missing_exclude_file_dropped
         [OF start(1) route3 guard exclude log logger missing3]
  have 3: "\<exists>c s'. getConfig fakeSys (initialState excludeFlagWorld) = (Return c, s') \<and>
      excludeFrom c = None \<and>
      (\<exists>t. Console WarnT (''['' @ toISOString t @ ''] Exclude file not found: /home/user/skip.txt'')
         \<in> set (trace s'))"
    unfolding path start(2) by simp
  from 1 2 3 show ?thesis
    by (intro conjI)
qed

subsection \<open>C2: the baseline reference\<close>

text \<open>
  C2 does not hold of the code, by the defect that C1 shows: nothing restricts
  \<^verbatim>\<open>rsyncOptions\<close> to the flags \<^verbatim>\<open>a\<close>, \<^verbatim>\<open>z\<close>, \<^verbatim>\<open>c\<close> that the documentation admits, and \<open>backup\<close>
  copies the text into the command, behind \<^verbatim>\<open>rsync -\<close>. The file \<^verbatim>\<open>.incback\<close> with
  \<^verbatim>\<open>"rsyncOptions": "az --link-dest=/old"\<close> passes the guard and is loaded as it is. In a first
  run, where \<open>getLatestBackupDir\<close> finds no snapshot under the destination, the last thing
  that \<open>backup\<close> does is to run
  \<^verbatim>\<open>rsync -az --link-dest=/old --delete  "/tmp/a/" "/tmp/b/BACKUP-2025-11-23T193045/"\<close>:
  an initial backup whose command carries a baseline reference, and the run ends with
  status 0.
\<close>

theorem baseline_reference_from_rsync_options:
  "isProgramOptions (JObj [(''src'', JStr ''/tmp/a''), (''dest'', JStr ''/tmp/b''),
                           (''rsyncOptions'', JStr ''az --link-dest=/old'')]) \<and>
   getConfig fakeSys (initialState ownLinkDestWorld) =
     (Return ownLinkDestConfig,
      (initialState ownLinkDestWorld)
        \<lparr>loggerInstance := Some \<lparr>logFilePath = None, stream = None\<rparr>,
         configCache := Some ownLinkDestConfig\<rparr>) \<and>
   fst (getLatestBackupDir fakeSys ownLinkDestConfig
         ((initialState ownLinkDestWorld)
            \<lparr>loggerInstance := Some \<lparr>logFilePath = None, stream = None\<rparr>,
             configCache := Some ownLinkDestConfig,
             world := ownLinkDestWorld\<lparr>time := 1763926246123\<rparr>\<rparr>)) = Inr None \<and>
   backup fakeSys ownLinkDestConfig
     ((initialState ownLinkDestWorld)
        \<lparr>loggerInstance := Some \<lparr>logFilePath = None, stream = None\<rparr>,
         configCache := Some ownLinkDestConfig\<rparr>) =
     backupSync fakeSys ownLinkDestConfig ''/tmp/b/BACKUP-2025-11-23T193045''
       ((initialState ownLinkDestWorld)
          \<lparr>loggerInstance := Some \<lparr>logFilePath = None, stream = None\<rparr>,
           configCache := Some ownLinkDestConfig,
           world := ownLinkDestWorld\<lparr>time := 1763926246123\<rparr>\<rparr>) \<and>
   fst (main fakeSys (initialState ownLinkDestWorld)) = 0 \<and>
   last (trace (snd (main fakeSys (initialState ownLinkDestWorld)))) =
     Spawn ''rsync -az --link-dest=/old --delete  \"/tmp/a/\" \"/tmp/b/BACKUP-2025-11-23T193045/\"'' \<and>
   occurrences linkDest
     ''rsync -az --link-dest=/old --delete  \"/tmp/a/\" \"/tmp/b/BACKUP-2025-11-23T193045/\"'' = 1"
proof -
  let ?s = "initialState ownLinkDestWorld"
  let ?sc = "?s\<lparr>loggerInstance := Some \<lparr>logFilePath = None, stream = None\<rparr>,
                 configCache := Some ownLinkDestConfig\<rparr>"
  let ?s3 = "?s\<lparr>loggerInstance := Some \<lparr>logFilePath = None, stream = None\<rparr>,
                 configCache := Some ownLinkDestConfig,
                 world := ownLinkDestWorld\<lparr>time := 1763926246123\<rparr>\<rparr>"
  let ?cmd = "''rsync -az --link-dest=/old --delete  \"/tmp/a/\" \"/tmp/b/BACKUP-2025-11-23T193045/\"''"
  have i: "isProgramOptions (JObj [(''src'', JStr ''/tmp/a''), (''dest'', JStr ''/tmp/b''),
                                   (''rsyncOptions'', JStr ''az --link-dest=/old'')])"
    by (simp add: isProgramOptions_def typeof_def getProp_def)
  have g: "getConfig fakeSys ?s = (Return ownLinkDestConfig, ?sc)"
    by (simp add: getConfig_def parseConfigFromArgs_def readConfigFromJSON_def fakeSys_def
          initialState_def ownLinkDestWorld_def fakeJSON_def i optionsToConfigUnknown_def truthy_def
          typeof_def optionsToConfig_def getLogger_def newLogger_def asProgramOptions_def
          strProp_def tmplProp_def getProp_def ownLinkDestConfig_def localConfig_def
          ProgramOptions.extend_def ProgramConfig.fields_def Let_def)
  have l: "fst (getLatestBackupDir fakeSys ownLinkDestConfig ?s3) = Inr None"
    by (simp add: run_defs initialState_def ownLinkDestWorld_def ownLinkDestConfig_def
          localConfig_def)
  have b: "backup fakeSys ownLinkDestConfig ?sc =
             backupSync fakeSys ownLinkDestConfig ''/tmp/b/BACKUP-2025-11-23T193045'' ?s3"
    by (simp add: backup_def fakeSys_def existsSrcPath_def existsPath_def existsDestPath_def
          backupDirLeaf_def initialState_def ownLinkDestWorld_def ownLinkDestConfig_def
          localConfig_def suffix_2025 Let_def)
  have r: "fst (backup fakeSys ownLinkDestConfig ?sc) = Inr ()"
    "last (trace (snd (backup fakeSys ownLinkDestConfig ?sc))) = Spawn ?cmd"
    by (simp_all add: run_defs initialState_def ownLinkDestWorld_def ownLinkDestConfig_def
          localConfig_def suffix_2025)
  obtain s7 where e: "backup fakeSys ownLinkDestConfig ?sc = (Inr (), s7)"
    using r(1) by (cases "backup fakeSys ownLinkDestConfig ?sc") simp
  then have m: "main fakeSys ?s = (0, s7)"
    by (simp add: main_def backupRun_def g)
  have o: "occurrences linkDest ?cmd = 1"
    by (simp add: linkDest_def occurrences.simps)
  from m r(2) e have "fst (main fakeSys ?s) = 0"
    "last (trace (snd (main fakeSys ?s))) = Spawn ?cmd"
    by simp_all
  with i g l b o show ?thesis
    by (intro conjI)
qed

theorem baseline_reference_from_rsync_options_witness:
  "fst (getLatestBackupDir fakeSys ownLinkDestConfig
         ((initialState ownLinkDestWorld)
            \<lparr>loggerInstance := Some \<lparr>logFilePath = None, stream = None\<rparr>,
             configCache := Some ownLinkDestConfig,
             world := ownLinkDestWorld\<lparr>time := 1763926246123\<rparr>\<rparr>)) = Inr None \<and>
   isSyncInvocation (last (trace (snd (main fakeSys (initialState ownLinkDestWorld))))) \<and>
   0 < occurrences linkDest
     ''rsync -az --link-dest=/old --delete  \"/tmp/a/\" \"/tmp/b/BACKUP-2025-11-23T193045/\"''"
proof -
  note t = baseline_reference_from_rsync_options
  from t have 1: "fst (getLatestBackupDir fakeSys ownLinkDestConfig
         ((initialState ownLinkDestWorld)
            \<lparr>loggerInstance := Some \<lparr>logFilePath = None, stream = None\<rparr>,
             configCache := Some ownLinkDestConfig,
             world := ownLinkDestWorld\<lparr>time := 1763926246123\<rparr>\<rparr>)) = Inr None"
    by (rule conjunct2 [THEN conjunct2, THEN conjunct1])
  from t have "last (trace (snd (main fakeSys (initialState ownLinkDestWorld)))) =
     Spawn ''rsync -az --link-dest=/old --delete  \"/tmp/a/\" \"/tmp/b/BACKUP-2025-11-23T193045/\"''"
    by (rule conjunct2 [THEN conjunct2, THEN conjunct2, THEN conjunct2, THEN conjunct2,
                        THEN conjunct1])
  then have 2: "isSyncInvocation (last (trace (snd (main fakeSys (initialState ownLinkDestWorld)))))"
    by (simp add: isSyncInvocation_def)
  from t have "occurrences linkDest
     ''rsync -az --link-dest=/old --delete  \"/tmp/a/\" \"/tmp/b/BACKUP-2025-11-23T193045/\"'' = 1"
    by (rule conjunct2 [THEN conjunct2, THEN conjunct2, THEN conjunct2, THEN conjunct2,
                        THEN conjunct2])
  then have 3: "0 < occurrences linkDest
     ''rsync -az --link-dest=/old --delete  \"/tmp/a/\" \"/tmp/b/BACKUP-2025-11-23T193045/\"''"
    by simp
  from 1 2 3 show ?thesis
    by (intro conjI)
qed

subsection \<open>Helper lemmas about dates\<close>

lemma div_step:
  fixes x k :: int
  assumes "0 < k"
  shows "(x + 1) div k = x div k + (if (x + 1) mod k = 0 then 1 else 0)"
proof -
  define q where "q = x div k"
  define r where "r = x mod k"
  have e: "x = k * q + r"
    unfolding q_def r_def by simp
  have r: "0 \<le> r" "r < k"
    unfolding r_def using assms by simp_all
  show ?thesis
  proof (cases "r + 1 = k")
    case True
    then have x: "x + 1 = k * (q + 1) + 0"
      using e by (simp add: algebra_simps)
    have z: "(0::int) \<le> 0" by simp
    have "(x + 1) div k = q + 1"
      using x z assms by (rule int_div_pos_eq)
    moreover have "(x + 1) mod k = 0"
      using x z assms by (rule int_mod_pos_eq)
    ultimately show ?thesis by (simp add: q_def)
  next
    case False
    have "x + 1 = k * q + (r + 1)"
      using e by simp
    moreover have "0 \<le> r + 1" and "r + 1 < k"
      using r False by simp_all
    ultimately have "(x + 1) div k = q" and "(x + 1) mod k = r + 1"
      by (rule int_div_pos_eq, rule int_mod_pos_eq)
    with r(1) show ?thesis by (simp add: q_def)
  qed
qed

lemma mod_shift:
  fixes y :: int
  shows "(y - 1968) mod 4 = y mod 4" "(y - 1900) mod 100 = y mod 100"
    "(y - 1600) mod 400 = y mod 400"
proof -
  have "(y + 4 * (- 492)) mod 4 = y mod 4" by (rule mod_mult_self2)
  then show "(y - 1968) mod 4 = y mod 4" by simp
  have "(y + 100 * (- 19)) mod 100 = y mod 100" by (rule mod_mult_self2)
  then show "(y - 1900) mod 100 = y mod 100" by simp
  have "(y + 400 * (- 4)) mod 400 = y mod 400" by (rule mod_mult_self2)
  then show "(y - 1600) mod 400 = y mod 400" by simp
qed

lemma leap_divisors:
  fixes y :: int
  shows "y mod 100 = 0 \<Longrightarrow> y mod 4 = 0" "y mod 400 = 0 \<Longrightarrow> y mod 100 = 0"
proof -
  have a: "(4::int) dvd 100" and b: "(100::int) dvd 400" by simp_all
  show "y mod 100 = 0 \<Longrightarrow> y mod 4 = 0"
    using a by (meson dvd_trans mod_eq_0_iff_dvd)
  show "y mod 400 = 0 \<Longrightarrow> y mod 100 = 0"
    using b by (meson dvd_trans mod_eq_0_iff_dvd)
qed

lemma DayFromYear_next: "DayFromYear (y + 1) = DayFromYear y + DaysInYear y"
proof -
  define a where "a = (y - 1969) div 4"
  define b where "b = (y - 1901) div 100"
  define c where "c = (y - 1601) div 400"
  have "(y - 1969 + 1) div 4 = a + (if (y - 1969 + 1) mod 4 = 0 then 1 else 0)"
    unfolding a_def by (rule div_step) simp
  then have a': "(y + 1 - 1969) div 4 = a + (if y mod 4 = 0 then 1 else 0)"
    using mod_shift(1) [of y] by (simp add: algebra_simps)
  have "(y - 1901 + 1) div 100 = b + (if (y - 1901 + 1) mod 100 = 0 then 1 else 0)"
    unfolding b_def by (rule div_step) simp
  then have b': "(y + 1 - 1901) div 100 = b + (if y mod 100 = 0 then 1 else 0)"
    using mod_shift(2) [of y] by (simp add: algebra_simps)
  have "(y - 1601 + 1) div 400 = c + (if (y - 1601 + 1) mod 400 = 0 then 1 else 0)"
    unfolding c_def by (rule div_step) simp
  then have c': "(y + 1 - 1601) div 400 = c + (if y mod 400 = 0 then 1 else 0)"
    using mod_shift(3) [of y] by (simp add: algebra_simps)
  have "DayFromYear (y + 1) =
          365 * (y + 1 - 1970) + (y + 1 - 1969) div 4 - (y + 1 - 1901) div 100 +
          (y + 1 - 1601) div 400"
    by (simp only: DayFromYear_def)
  also have "\<dots> = 365 * (y + 1 - 1970) + (a + (if y mod 4 = 0 then 1 else 0)) -
          (b + (if y mod 100 = 0 then 1 else 0)) + (c + (if y mod 400 = 0 then 1 else 0))"
    by (simp only: a' b' c')
  also have "\<dots> = (365 * (y - 1970) + a - b + c) + DaysInYear y"
    using leap_divisors [of y] by (auto simp: DaysInYear_def)
  also have "365 * (y - 1970) + a - b + c = DayFromYear y"
    by (simp only: DayFromYear_def a_def b_def c_def)
  finally show ?thesis .
qed

lemma DaysInYear_pos: "365 \<le> DaysInYear y" "DaysInYear y \<le> 366"
  by (simp_all add: DaysInYear_def)

lemma DayFromYear_mono:
  assumes "y1 \<le> y2"
  shows "DayFromYear y1 \<le> DayFromYear y2"
  using assms
proof (induction y2 rule: int_ge_induct)
  case base
  show ?case by simp
next
  case (step i)
  then show ?case
    using DayFromYear_next [of i] DaysInYear_pos(1) [of i] by simp
qed

lemma DayFromYear_strict:
  assumes "y1 < y2"
  shows "DayFromYear y1 < DayFromYear y2"
proof -
  from assms have "y1 + 1 \<le> y2" by simp
  then have "DayFromYear (y1 + 1) \<le> DayFromYear y2" by (rule DayFromYear_mono)
  then show ?thesis
    using DayFromYear_next [of y1] DaysInYear_pos(1) [of y1] by simp
qed

lemma yearFrom_lower: "DayFromYear (yearFrom d y) \<le> d"
proof (induction d y rule: yearFrom.induct)
  case (1 d y)
  then show ?case
    by (cases "DayFromYear y \<le> d") (simp_all add: yearFrom.simps [of d y])
qed

lemma yearFrom_upper:
  assumes "d < DayFromYear (y + 1)"
  shows "d < DayFromYear (yearFrom d y + 1)"
  using assms
proof (induction d y rule: yearFrom.induct)
  case (1 d y)
  show ?case
  proof (cases "DayFromYear y \<le> d")
    case True
    with "1.prems" show ?thesis by (simp add: yearFrom.simps [of d y])
  next
    case False
    then have "d < DayFromYear (y - 1 + 1)" by simp
    with False "1.IH" have "d < DayFromYear (yearFrom d (y - 1) + 1)" by simp
    with False show ?thesis by (simp add: yearFrom.simps [of d y])
  qed
qed

lemma DayFromYear_1970: "DayFromYear 1970 = 0"
  by (simp add: DayFromYear_def)

lemma DayFromYear_growth:
  assumes "0 \<le> k"
  shows "365 * k \<le> DayFromYear (1970 + k)"
  using assms
proof (induction k rule: int_ge_induct)
  case base
  show ?case by (simp add: DayFromYear_1970)
next
  case (step i)
  have "DayFromYear (1970 + (i + 1)) = DayFromYear (1970 + i) + DaysInYear (1970 + i)"
    using DayFromYear_next [of "1970 + i"] by (simp add: algebra_simps)
  with step DaysInYear_pos(1) [of "1970 + i"] show ?case by simp
qed

lemma YearFromTime_start: "d < DayFromYear (1970 + max 0 (d div 365) + 1)"
proof -
  define k where "k = max 0 (d div 365) + 1"
  have k0: "0 \<le> k" by (simp add: k_def)
  have "d < 365 * k"
  proof (cases "0 \<le> d")
    case True
    define q where "q = d div 365"
    define r where "r = d mod 365"
    define m where "m = max 0 q"
    have "d = 365 * q + r" unfolding q_def r_def by simp
    moreover have "r < 365" unfolding r_def by simp
    moreover have "q \<le> m" unfolding m_def by simp
    ultimately have "d < 365 * (m + 1)" by simp
    then show ?thesis unfolding k_def m_def q_def .
  next
    case False
    then show ?thesis unfolding k_def by simp
  qed
  also have "365 * k \<le> DayFromYear (1970 + k)"
    using k0 by (rule DayFromYear_growth)
  finally show ?thesis by (simp add: k_def algebra_simps)
qed

lemma YearFromTime_bounds:
  "DayFromYear (YearFromTime t) \<le> Day t" "Day t < DayFromYear (YearFromTime t + 1)"
  unfolding YearFromTime_def
  by (rule yearFrom_lower, rule yearFrom_upper, rule YearFromTime_start)

lemma YearFromTime_unique:
  assumes "DayFromYear y \<le> Day t" and "Day t < DayFromYear (y + 1)"
  shows "YearFromTime t = y"
proof (rule ccontr)
  assume "YearFromTime t \<noteq> y"
  then consider "YearFromTime t < y" | "y < YearFromTime t" by linarith
  then show False
  proof cases
    case 1
    then have "YearFromTime t + 1 \<le> y" by simp
    then have "DayFromYear (YearFromTime t + 1) \<le> DayFromYear y" by (rule DayFromYear_mono)
    with assms(1) YearFromTime_bounds(2) [of t] show False by simp
  next
    case 2
    then have "y + 1 \<le> YearFromTime t" by simp
    then have "DayFromYear (y + 1) \<le> DayFromYear (YearFromTime t)" by (rule DayFromYear_mono)
    with assms(2) YearFromTime_bounds(1) [of t] show False by simp
  qed
qed

lemma YearFromTime_mono:
  assumes "Day t1 \<le> Day t2"
  shows "YearFromTime t1 \<le> YearFromTime t2"
proof (rule ccontr)
  assume "\<not> YearFromTime t1 \<le> YearFromTime t2"
  then have "YearFromTime t2 + 1 \<le> YearFromTime t1" by simp
  then have "DayFromYear (YearFromTime t2 + 1) \<le> DayFromYear (YearFromTime t1)"
    by (rule DayFromYear_mono)
  with YearFromTime_bounds(1) [of t1] YearFromTime_bounds(2) [of t2] assms
  show False by simp
qed

lemma DayWithinYear_range:
  "0 \<le> DayWithinYear t" "DayWithinYear t < 365 + InLeapYear t"
proof -
  show "0 \<le> DayWithinYear t"
    using YearFromTime_bounds(1) [of t] by (simp add: DayWithinYear_def)
  have "DaysInYear (YearFromTime t) = 365 + InLeapYear t"
    by (simp add: InLeapYear_def DaysInYear_def)
  then show "DayWithinYear t < 365 + InLeapYear t"
    using YearFromTime_bounds(2) [of t] DayFromYear_next [of "YearFromTime t"]
    by (simp add: DayWithinYear_def)
qed

lemma InLeapYear_cases: "InLeapYear t = 0 \<or> InLeapYear t = 1"
  by (simp add: InLeapYear_def)

lemma div_mod_lex:
  fixes a b k :: int
  assumes "0 < k" and "a < b"
  shows "a div k < b div k \<or> (a div k = b div k \<and> a mod k < b mod k)"
proof (cases "a div k = b div k")
  case True
  define q where "q = a div k"
  define r where "r = a mod k"
  define r' where "r' = b mod k"
  have "a = k * q + r" unfolding q_def r_def by simp
  moreover have "b = k * q + r'" unfolding q_def r'_def True by simp
  ultimately have "r < r'" using assms(2) by simp
  with True show ?thesis by (simp add: r_def r'_def)
next
  case False
  have "a div k \<le> b div k"
    using assms by (intro zdiv_mono1) simp_all
  with False show ?thesis by simp
qed

lemma time_units:
  fixes t :: int
  shows "t div 60000 = t div 1000 div 60"
    and "t div 3600000 = t div 1000 div 60 div 60"
    and "t div 86400000 = t div 1000 div 60 div 60 div 24"
proof -
  have a: "t div (1000 * 60) = t div 1000 div 60"
    by (rule zdiv_zmult2_eq) simp
  then show 1: "t div 60000 = t div 1000 div 60" by simp
  have "t div (60000 * 60) = t div 60000 div 60"
    by (rule zdiv_zmult2_eq) simp
  then show 2: "t div 3600000 = t div 1000 div 60 div 60" by (simp add: 1)
  have "t div (3600000 * 24) = t div 3600000 div 24"
    by (rule zdiv_zmult2_eq) simp
  then show "t div 86400000 = t div 1000 div 60 div 60 div 24" by (simp add: 2)
qed

lemma seconds_advance:
  fixes t1 t2 :: int
  assumes "t1 + 1000 \<le> t2"
  shows "t1 div 1000 < t2 div 1000"
proof -
  have "(t1 + 1000) div 1000 = t1 div 1000 + 1"
    by simp
  moreover have "(t1 + 1000) div 1000 \<le> t2 div 1000"
    using assms by (intro zdiv_mono1) simp_all
  ultimately show ?thesis by simp
qed

lemma clock_lex:
  assumes "t1 + 1000 \<le> t2"
  shows "Day t1 < Day t2 \<or>
         (Day t1 = Day t2 \<and>
          (HourFromTime t1 < HourFromTime t2 \<or>
           (HourFromTime t1 = HourFromTime t2 \<and>
            (MinFromTime t1 < MinFromTime t2 \<or>
             (MinFromTime t1 = MinFromTime t2 \<and> SecFromTime t1 < SecFromTime t2)))))"
proof -
  define s1 where "s1 = t1 div 1000"
  define s2 where "s2 = t2 div 1000"
  define m1 where "m1 = s1 div 60"
  define m2 where "m2 = s2 div 60"
  define h1 where "h1 = m1 div 60"
  define h2 where "h2 = m2 div 60"
  define A1 where "A1 = h1 div 24"
  define A2 where "A2 = h2 div 24"
  define B1 where "B1 = h1 mod 24"
  define B2 where "B2 = h2 mod 24"
  define C1 where "C1 = m1 mod 60"
  define C2 where "C2 = m2 mod 60"
  define E1 where "E1 = s1 mod 60"
  define E2 where "E2 = s2 mod 60"
  have f1: "Day t1 = A1" "HourFromTime t1 = B1" "MinFromTime t1 = C1" "SecFromTime t1 = E1"
    by (simp_all add: Day_def msPerDay_def HourFromTime_def MinFromTime_def SecFromTime_def
          time_units A1_def B1_def C1_def E1_def h1_def m1_def s1_def)
  have f2: "Day t2 = A2" "HourFromTime t2 = B2" "MinFromTime t2 = C2" "SecFromTime t2 = E2"
    by (simp_all add: Day_def msPerDay_def HourFromTime_def MinFromTime_def SecFromTime_def
          time_units A2_def B2_def C2_def E2_def h2_def m2_def s2_def)
  have "s1 < s2"
    unfolding s1_def s2_def using assms by (rule seconds_advance)
  then have a: "m1 < m2 \<or> (m1 = m2 \<and> E1 < E2)"
    unfolding m1_def m2_def E1_def E2_def by (intro div_mod_lex) simp_all
  have b: "h1 < h2 \<or> (h1 = h2 \<and> C1 < C2)" if "m1 < m2"
    unfolding h1_def h2_def C1_def C2_def using that by (intro div_mod_lex) simp_all
  have c: "A1 < A2 \<or> (A1 = A2 \<and> B1 < B2)" if "h1 < h2"
    unfolding A1_def A2_def B1_def B2_def using that by (intro div_mod_lex) simp_all
  have d: "h1 = h2 \<and> C1 = C2" if "m1 = m2"
    using that by (simp add: h1_def h2_def C1_def C2_def)
  have e: "A1 = A2 \<and> B1 = B2" if "h1 = h2"
    using that by (simp add: A1_def A2_def B1_def B2_def)
  from a b c d e show ?thesis
    unfolding f1 f2 by blast
qed

lemma monthOfDay_lex:
  assumes "l = 0 \<or> l = 1" and "d1 < d2"
  shows "monthOfDay l d1 < monthOfDay l d2 \<or>
         (monthOfDay l d1 = monthOfDay l d2 \<and> dateOfDay l d1 < dateOfDay l d2)"
  using assms by (auto simp: monthOfDay_def dateOfDay_def Let_def)

lemma monthOfDay_range: "0 \<le> monthOfDay l d" "monthOfDay l d \<le> 11"
  by (simp_all add: monthOfDay_def)

lemma dateOfDay_range:
  assumes "l = 0 \<or> l = 1" and "0 \<le> d" and "d < 365 + l"
  shows "1 \<le> dateOfDay l d" "dateOfDay l d \<le> 31"
  using assms by (auto simp: monthOfDay_def dateOfDay_def Let_def)

subsection \<open>Helper lemmas about the text of a time stamp\<close>

lemma of_char_digit:
  assumes "d < 10"
  shows "of_char (digit d) = 48 + d"
proof -
  have "(48 + d) mod 256 = 48 + d"
    using assms by simp
  then show ?thesis
    by (simp add: digit_def)
qed

lemma digit_less:
  assumes "a < b" and "b < 10"
  shows "digit a < digit b"
proof -
  have "(of_char (digit a) :: nat) < of_char (digit b)"
    using assms by (simp add: of_char_digit)
  then show ?thesis
    by (simp add: less_char_def)
qed

lemma digit_plain:
  assumes "d < 10"
  shows "digit d \<noteq> CHR '':''" "digit d \<noteq> CHR ''.''"
proof -
  have "(of_char (digit d) :: nat) \<noteq> of_char (CHR '':'')"
    using assms by (simp add: of_char_digit)
  then show "digit d \<noteq> CHR '':''" by auto
  have "(of_char (digit d) :: nat) \<noteq> of_char (CHR ''.'')"
    using assms by (simp add: of_char_digit)
  then show "digit d \<noteq> CHR ''.''" by auto
qed

lemma length_zpad: "length (zpad w n) = w"
  by (induction w arbitrary: n) simp_all

lemma zpad_plain: "c \<in> set (zpad w n) \<Longrightarrow> c \<noteq> CHR '':'' \<and> c \<noteq> CHR ''.''"
proof (induction w arbitrary: n)
  case 0
  then show ?case by simp
next
  case (Suc w)
  have "n mod 10 < 10" by simp
  with Suc digit_plain [of "n mod 10"] show ?case by auto
qed

lemma filter_zpad: "filter (\<lambda>c. c \<noteq> CHR '':'') (zpad w n) = zpad w n"
  using zpad_plain by (simp add: filter_id_conv)

lemma takeWhile_zpad:
  "takeWhile (\<lambda>c. c \<noteq> CHR ''.'') (zpad w n @ r) = zpad w n @ takeWhile (\<lambda>c. c \<noteq> CHR ''.'') r"
  using zpad_plain by (simp add: takeWhile_append2)

lemma append_less_same_length:
  fixes xs ys :: string
  assumes "length xs = length ys"
  shows "xs @ us < ys @ vs \<longleftrightarrow> xs < ys \<or> (xs = ys \<and> us < vs)"
  using assms by (induction xs ys rule: list_induct2) auto

lemma zpad_less:
  assumes "a < b" and "b < 10 ^ w"
  shows "zpad w a < zpad w b"
  using assms
proof (induction w arbitrary: a b)
  case 0
  then show ?case by simp
next
  case (Suc w)
  have l: "length (zpad w (a div 10)) = length (zpad w (b div 10))"
    by (simp add: length_zpad)
  have "a div 10 \<le> b div 10"
    using Suc.prems(1) by (simp add: div_le_mono)
  then consider "a div 10 < b div 10" | "a div 10 = b div 10" by linarith
  then show ?case
  proof cases
    case 1
    moreover from Suc.prems(2) have "b div 10 < 10 ^ w"
      by (simp add: less_mult_imp_div_less mult.commute)
    ultimately have "zpad w (a div 10) < zpad w (b div 10)"
      by (rule Suc.IH)
    then show ?thesis
      by (simp add: append_less_same_length [OF l])
  next
    case 2
    have "a = 10 * (a div 10) + a mod 10" and "b = 10 * (b div 10) + b mod 10"
      by simp_all
    with 2 Suc.prems(1) have "a mod 10 < b mod 10"
      by linarith
    then have "digit (a mod 10) < digit (b mod 10)"
      by (rule digit_less) simp
    then have "zpad w (b div 10) @ [digit (a mod 10)] < zpad w (b div 10) @ [digit (b mod 10)]"
      by (simp add: append_less_same_length [OF refl])
    with 2 show ?thesis
      by simp
  qed
qed

lemma field_less:
  assumes "(a < b \<and> b < 10 ^ w) \<or> (a = b \<and> us < vs)"
  shows "zpad w a @ us < zpad w b @ vs"
proof -
  have l: "length (zpad w a) = length (zpad w b)"
    by (simp add: length_zpad)
  from assms show ?thesis
    unfolding append_less_same_length [OF l] using zpad_less by blast
qed

lemma backupSuffix_stamp:
  assumes "0 \<le> YearFromTime t" and "YearFromTime t \<le> 9999"
  shows "backupSuffix t =
           stamp (nat (YearFromTime t)) (nat (MonthFromTime t + 1)) (nat (DateFromTime t))
             (nat (HourFromTime t)) (nat (MinFromTime t)) (nat (SecFromTime t))"
  using assms
  by (simp add: backupSuffix_def toISOString_def isoYear_def stamp_def filter_zpad
        takeWhile_zpad)

lemma stamp_less:
  assumes "y1 < y2 \<or> (y1 = y2 \<and> (m1 < m2 \<or> (m1 = m2 \<and> (d1 < d2 \<or> (d1 = d2 \<and>
             (h1 < h2 \<or> (h1 = h2 \<and> (i1 < i2 \<or> (i1 = i2 \<and> s1 < s2)))))))))"
    and "y2 < 10 ^ 4" and "m2 < 10 ^ 2" and "d2 < 10 ^ 2" and "h2 < 10 ^ 2" and "i2 < 10 ^ 2"
    and "s2 < 10 ^ 2"
  shows "stamp y1 m1 d1 h1 i1 s1 < stamp y2 m2 d2 h2 i2 s2"
proof -
  have s: "zpad 2 s1 < zpad 2 s2" if "s1 < s2"
    using that assms(7) by (rule zpad_less)
  have i: "zpad 2 i1 @ zpad 2 s1 < zpad 2 i2 @ zpad 2 s2"
    if "i1 < i2 \<or> (i1 = i2 \<and> s1 < s2)"
    using that assms(6) s by (intro field_less) blast
  have h: "zpad 2 h1 @ zpad 2 i1 @ zpad 2 s1 < zpad 2 h2 @ zpad 2 i2 @ zpad 2 s2"
    if "h1 < h2 \<or> (h1 = h2 \<and> (i1 < i2 \<or> (i1 = i2 \<and> s1 < s2)))"
    using that assms(5) i by (intro field_less) blast
  have d: "zpad 2 d1 @ ''T'' @ zpad 2 h1 @ zpad 2 i1 @ zpad 2 s1
             < zpad 2 d2 @ ''T'' @ zpad 2 h2 @ zpad 2 i2 @ zpad 2 s2"
    if "d1 < d2 \<or> (d1 = d2 \<and> (h1 < h2 \<or> (h1 = h2 \<and> (i1 < i2 \<or> (i1 = i2 \<and> s1 < s2)))))"
    using that assms(4) h by (intro field_less) auto
  have m: "zpad 2 m1 @ ''-'' @ zpad 2 d1 @ ''T'' @ zpad 2 h1 @ zpad 2 i1 @ zpad 2 s1
             < zpad 2 m2 @ ''-'' @ zpad 2 d2 @ ''T'' @ zpad 2 h2 @ zpad 2 i2 @ zpad 2 s2"
    if "m1 < m2 \<or> (m1 = m2 \<and> (d1 < d2 \<or> (d1 = d2 \<and>
          (h1 < h2 \<or> (h1 = h2 \<and> (i1 < i2 \<or> (i1 = i2 \<and> s1 < s2)))))))"
    using that assms(3) d by (intro field_less) auto
  show ?thesis
    unfolding stamp_def using assms(1,2) m by (intro field_less) auto
qed

lemma calendar_lex:
  assumes "Day t1 < Day t2"
  shows "YearFromTime t1 < YearFromTime t2 \<or>
         (YearFromTime t1 = YearFromTime t2 \<and>
          (MonthFromTime t1 < MonthFromTime t2 \<or>
           (MonthFromTime t1 = MonthFromTime t2 \<and> DateFromTime t1 < DateFromTime t2)))"
proof (cases "YearFromTime t1 = YearFromTime t2")
  case True
  then have l: "InLeapYear t1 = InLeapYear t2"
    by (simp add: InLeapYear_def)
  from True assms have "DayWithinYear t1 < DayWithinYear t2"
    by (simp add: DayWithinYear_def)
  with InLeapYear_cases [of t2]
  have "monthOfDay (InLeapYear t2) (DayWithinYear t1) < monthOfDay (InLeapYear t2) (DayWithinYear t2) \<or>
        (monthOfDay (InLeapYear t2) (DayWithinYear t1) = monthOfDay (InLeapYear t2) (DayWithinYear t2) \<and>
         dateOfDay (InLeapYear t2) (DayWithinYear t1) < dateOfDay (InLeapYear t2) (DayWithinYear t2))"
    by (rule monthOfDay_lex)
  with True l show ?thesis
    by (simp add: MonthFromTime_def DateFromTime_def)
next
  case False
  from assms have "YearFromTime t1 \<le> YearFromTime t2"
    by (intro YearFromTime_mono) simp
  with False show ?thesis by simp
qed

lemma field_ranges:
  "0 \<le> MonthFromTime t" "MonthFromTime t \<le> 11" "1 \<le> DateFromTime t" "DateFromTime t \<le> 31"
  "0 \<le> HourFromTime t" "HourFromTime t < 24" "0 \<le> MinFromTime t" "MinFromTime t < 60"
  "0 \<le> SecFromTime t" "SecFromTime t < 60"
proof -
  show "0 \<le> MonthFromTime t" "MonthFromTime t \<le> 11"
    by (simp_all add: MonthFromTime_def monthOfDay_range)
  show "1 \<le> DateFromTime t" "DateFromTime t \<le> 31"
    unfolding DateFromTime_def
    using InLeapYear_cases [of t] DayWithinYear_range [of t] by (rule dateOfDay_range)+
  show "0 \<le> HourFromTime t" "HourFromTime t < 24" "0 \<le> MinFromTime t" "MinFromTime t < 60"
    "0 \<le> SecFromTime t" "SecFromTime t < 60"
    by (simp_all add: HourFromTime_def MinFromTime_def SecFromTime_def)
qed

lemma year_range:
  assumes "- 62167219200000 \<le> t" and "t < 253402300800000"
  shows "0 \<le> YearFromTime t" "YearFromTime t \<le> 9999"
proof -
  have "(- 62167219200000) div 86400000 \<le> t div 86400000"
    using assms(1) by (intro zdiv_mono1) simp_all
  then have lo: "DayFromYear 0 \<le> Day t"
    by (simp add: Day_def msPerDay_def DayFromYear_def)
  have "t div 86400000 \<le> 253402300799999 div 86400000"
    using assms(2) by (intro zdiv_mono1) simp_all
  then have hi: "Day t < DayFromYear 10000"
    by (simp add: Day_def msPerDay_def DayFromYear_def)
  show "0 \<le> YearFromTime t"
  proof (rule ccontr)
    assume "\<not> 0 \<le> YearFromTime t"
    then have "YearFromTime t + 1 \<le> 0" by simp
    then have "DayFromYear (YearFromTime t + 1) \<le> DayFromYear 0" by (rule DayFromYear_mono)
    with lo YearFromTime_bounds(2) [of t] show False by simp
  qed
  show "YearFromTime t \<le> 9999"
  proof (rule ccontr)
    assume "\<not> YearFromTime t \<le> 9999"
    then have "10000 \<le> YearFromTime t" by simp
    then have "DayFromYear 10000 \<le> DayFromYear (YearFromTime t)" by (rule DayFromYear_mono)
    with hi YearFromTime_bounds(1) [of t] show False by simp
  qed
qed

lemma same_day:
  assumes "Day t1 = Day t2"
  shows "YearFromTime t1 = YearFromTime t2" "MonthFromTime t1 = MonthFromTime t2"
    "DateFromTime t1 = DateFromTime t2"
  using assms
  by (simp_all add: YearFromTime_def InLeapYear_def DayWithinYear_def MonthFromTime_def
        DateFromTime_def)

lemma nat_lex:
  fixes a b :: int
  assumes "0 \<le> a" and "a < b \<or> (a = b \<and> Q)" and "Q \<Longrightarrow> Q'"
  shows "nat a < nat b \<or> (nat a = nat b \<and> Q')"
  using assms by auto

lemma less_same_prefix:
  fixes p :: string
  shows "p @ us < p @ vs \<longleftrightarrow> us < vs"
  by (simp add: append_less_same_length [OF refl])


lemma digits:
  "digit 0 = CHR ''0''" "digit 1 = CHR ''1''" "digit 2 = CHR ''2''" "digit 3 = CHR ''3''"
  "digit 4 = CHR ''4''" "digit 5 = CHR ''5''" "digit 6 = CHR ''6''" "digit 7 = CHR ''7''"
  "digit 8 = CHR ''8''" "digit 9 = CHR ''9''" "digit (Suc 0) = CHR ''1''"
  by code_simp+

lemma zpad_digits:
  "zpad 2 n = [digit (n div 10 mod 10), digit (n mod 10)]"
  "zpad 3 n = [digit (n div 10 div 10 mod 10), digit (n div 10 mod 10), digit (n mod 10)]"
  "zpad 4 n = [digit (n div 10 div 10 div 10 mod 10), digit (n div 10 div 10 mod 10),
               digit (n div 10 mod 10), digit (n mod 10)]"
  "zpad 6 n = [digit (n div 10 div 10 div 10 div 10 div 10 mod 10),
               digit (n div 10 div 10 div 10 div 10 mod 10),
               digit (n div 10 div 10 div 10 mod 10), digit (n div 10 div 10 mod 10),
               digit (n div 10 mod 10), digit (n mod 10)]"
proof -
  have n: "(2::nat) = Suc (Suc 0)" "(3::nat) = Suc (Suc (Suc 0))"
    "(4::nat) = Suc (Suc (Suc (Suc 0)))" "(6::nat) = Suc (Suc (Suc (Suc (Suc (Suc 0)))))"
    by simp_all
  show "zpad 2 n = [digit (n div 10 mod 10), digit (n mod 10)]"
    unfolding n(1) by simp
  show "zpad 3 n = [digit (n div 10 div 10 mod 10), digit (n div 10 mod 10), digit (n mod 10)]"
    unfolding n(2) by simp
  show "zpad 4 n = [digit (n div 10 div 10 div 10 mod 10), digit (n div 10 div 10 mod 10),
               digit (n div 10 mod 10), digit (n mod 10)]"
    unfolding n(3) by simp
  show "zpad 6 n = [digit (n div 10 div 10 div 10 div 10 div 10 mod 10),
               digit (n div 10 div 10 div 10 div 10 mod 10),
               digit (n div 10 div 10 div 10 mod 10), digit (n div 10 div 10 mod 10),
               digit (n div 10 mod 10), digit (n mod 10)]"
    unfolding n(4) by simp
qed

lemma year_9999: "YearFromTime 253402300799000 = 9999"
  by (rule YearFromTime_unique) (simp_all add: DayFromYear_def Day_def msPerDay_def)

lemma year_10000: "YearFromTime 253402300800000 = 10000"
  by (rule YearFromTime_unique) (simp_all add: DayFromYear_def Day_def msPerDay_def)

lemma suffix_9999: "backupSuffix 253402300799000 = ''9999-12-31T235959''"
proof -
  let ?t = "253402300799000 :: int"
  have f: "MonthFromTime ?t = 11" "DateFromTime ?t = 31" "HourFromTime ?t = 23"
    "MinFromTime ?t = 59" "SecFromTime ?t = 59" "msFromTime ?t = 0"
    by (simp_all add: MonthFromTime_def DateFromTime_def InLeapYear_def DayWithinYear_def
          year_9999 DaysInYear_def DayFromYear_def Day_def msPerDay_def monthOfDay_def
          dateOfDay_def HourFromTime_def MinFromTime_def SecFromTime_def msFromTime_def)
  show ?thesis
    by (simp add: backupSuffix_def toISOString_def f year_9999 isoYear_def zpad_digits digits)
qed

lemma suffix_10000: "backupSuffix 253402300800000 = ''+010000-01-01T000000''"
proof -
  let ?t = "253402300800000 :: int"
  have f: "MonthFromTime ?t = 0" "DateFromTime ?t = 1" "HourFromTime ?t = 0"
    "MinFromTime ?t = 0" "SecFromTime ?t = 0" "msFromTime ?t = 0"
    by (simp_all add: MonthFromTime_def DateFromTime_def InLeapYear_def DayWithinYear_def
          year_10000 DaysInYear_def DayFromYear_def Day_def msPerDay_def monthOfDay_def
          dateOfDay_def HourFromTime_def MinFromTime_def SecFromTime_def msFromTime_def)
  show ?thesis
    by (simp add: backupSuffix_def toISOString_def f year_10000 isoYear_def zpad_digits digits)
qed

subsection \<open>C3: the names of the snapshot directories\<close>

text \<open>
  C3 as it stands does not hold. \<^verbatim>\<open>toISOString\<close> writes a year from 0 to 9999 with four
  digits and every other year with a sign and six digits. One second before the year
  10000 the name is \<^verbatim>\<open>BACKUP-9999-12-31T235959\<close>, and one second later it is
  \<^verbatim>\<open>BACKUP-+010000-01-01T000000\<close>, which is not the greater of the two: the character \<^verbatim>\<open>+\<close>
  comes before every digit.
\<close>

theorem snapshot_names_sort_chronologically_counterexample:
  "(253402300799000 :: int) + 1000 \<le> 253402300800000 \<and>
   backupDirLeaf None 253402300799000 = ''BACKUP-9999-12-31T235959'' \<and>
   backupDirLeaf None 253402300800000 = ''BACKUP-+010000-01-01T000000'' \<and>
   \<not> backupDirLeaf None 253402300799000 < backupDirLeaf None 253402300800000"
  by (simp add: backupDirLeaf_def suffix_9999 suffix_10000)

text \<open>
  C3, amended. For every prefix and every two times of the clock that are at least one
  second apart and both lie in the years 0000 to 9999 (from 0000-01-01T00:00:00.000Z to
  9999-12-31T23:59:59.999Z), the directory name \<^verbatim>\<open>{prefix}{timestamp}\<close> generated at the later
  time is strictly greater, in the lexicographic order of strings, than the name generated
  at the earlier time.
\<close>

theorem snapshot_names_sort_chronologically:
  assumes "t1 + 1000 \<le> t2" and "- 62167219200000 \<le> t1" and "t2 < 253402300800000"
  shows "backupDirLeaf prefix t1 < backupDirLeaf prefix t2"
proof -
  from assms have r1: "- 62167219200000 \<le> t1" "t1 < 253402300800000"
    and r2: "- 62167219200000 \<le> t2" "t2 < 253402300800000"
    by simp_all
  note y1 = year_range [OF r1]
  note y2 = year_range [OF r2]
  define Y1 M1 D1 H1 I1 S1 where f1: "Y1 = YearFromTime t1" "M1 = MonthFromTime t1"
    "D1 = DateFromTime t1" "H1 = HourFromTime t1" "I1 = MinFromTime t1" "S1 = SecFromTime t1"
  define Y2 M2 D2 H2 I2 S2 where f2: "Y2 = YearFromTime t2" "M2 = MonthFromTime t2"
    "D2 = DateFromTime t2" "H2 = HourFromTime t2" "I2 = MinFromTime t2" "S2 = SecFromTime t2"
  have clock: "Day t1 < Day t2 \<or>
      (Day t1 = Day t2 \<and> (H1 < H2 \<or> (H1 = H2 \<and> (I1 < I2 \<or> (I1 = I2 \<and> S1 < S2)))))"
    unfolding f1 f2 using assms(1) by (rule clock_lex)
  have cal: "Y1 < Y2 \<or> (Y1 = Y2 \<and> (M1 < M2 \<or> (M1 = M2 \<and> D1 < D2)))" if "Day t1 < Day t2"
    unfolding f1 f2 using that by (rule calendar_lex)
  have same: "Y1 = Y2 \<and> M1 = M2 \<and> D1 = D2" if "Day t1 = Day t2"
    unfolding f1 f2 using same_day [OF that] by (intro conjI)
  from clock cal same
  have L: "Y1 < Y2 \<or> (Y1 = Y2 \<and> (M1 < M2 \<or> (M1 = M2 \<and> (D1 < D2 \<or> (D1 = D2 \<and>
             (H1 < H2 \<or> (H1 = H2 \<and> (I1 < I2 \<or> (I1 = I2 \<and> S1 < S2)))))))))"
    by blast
  have b1: "0 \<le> Y1" "0 \<le> M1" "0 \<le> D1" "0 \<le> H1" "0 \<le> I1" "0 \<le> S1"
    unfolding f1 using y1(1) field_ranges [of t1] by simp_all
  have b2: "Y2 \<le> 9999" "M2 \<le> 11" "D2 \<le> 31" "H2 < 24" "I2 < 60" "S2 < 60"
    unfolding f2 using y2(2) field_ranges [of t2] by simp_all
  have s: "nat S1 < nat S2" if "S1 < S2"
    using that b1(6) by simp
  have i: "nat I1 < nat I2 \<or> (nat I1 = nat I2 \<and> nat S1 < nat S2)"
    if "I1 < I2 \<or> (I1 = I2 \<and> S1 < S2)"
    using b1(5) that s by (rule nat_lex)
  have h: "nat H1 < nat H2 \<or> (nat H1 = nat H2 \<and>
      (nat I1 < nat I2 \<or> (nat I1 = nat I2 \<and> nat S1 < nat S2)))"
    if "H1 < H2 \<or> (H1 = H2 \<and> (I1 < I2 \<or> (I1 = I2 \<and> S1 < S2)))"
    using b1(4) that i by (rule nat_lex)
  have d: "nat D1 < nat D2 \<or> (nat D1 = nat D2 \<and> (nat H1 < nat H2 \<or> (nat H1 = nat H2 \<and>
      (nat I1 < nat I2 \<or> (nat I1 = nat I2 \<and> nat S1 < nat S2)))))"
    if "D1 < D2 \<or> (D1 = D2 \<and> (H1 < H2 \<or> (H1 = H2 \<and> (I1 < I2 \<or> (I1 = I2 \<and> S1 < S2)))))"
    using b1(3) that h by (rule nat_lex)
  have m: "nat (M1 + 1) < nat (M2 + 1) \<or> (nat (M1 + 1) = nat (M2 + 1) \<and>
      (nat D1 < nat D2 \<or> (nat D1 = nat D2 \<and> (nat H1 < nat H2 \<or> (nat H1 = nat H2 \<and>
      (nat I1 < nat I2 \<or> (nat I1 = nat I2 \<and> nat S1 < nat S2)))))))"
    if k: "M1 < M2 \<or> (M1 = M2 \<and> (D1 < D2 \<or> (D1 = D2 \<and>
             (H1 < H2 \<or> (H1 = H2 \<and> (I1 < I2 \<or> (I1 = I2 \<and> S1 < S2)))))))"
  proof -
    have "0 \<le> M1 + 1" using b1(2) by simp
    moreover from k have "M1 + 1 < M2 + 1 \<or> (M1 + 1 = M2 + 1 \<and> (D1 < D2 \<or> (D1 = D2 \<and>
             (H1 < H2 \<or> (H1 = H2 \<and> (I1 < I2 \<or> (I1 = I2 \<and> S1 < S2)))))))"
      by auto
    ultimately show ?thesis using d by (rule nat_lex)
  qed
  have N: "nat Y1 < nat Y2 \<or> (nat Y1 = nat Y2 \<and>
      (nat (M1 + 1) < nat (M2 + 1) \<or> (nat (M1 + 1) = nat (M2 + 1) \<and>
      (nat D1 < nat D2 \<or> (nat D1 = nat D2 \<and> (nat H1 < nat H2 \<or> (nat H1 = nat H2 \<and>
      (nat I1 < nat I2 \<or> (nat I1 = nat I2 \<and> nat S1 < nat S2)))))))))"
    using b1(1) L m by (rule nat_lex)
  have "stamp (nat Y1) (nat (M1 + 1)) (nat D1) (nat H1) (nat I1) (nat S1)
          < stamp (nat Y2) (nat (M2 + 1)) (nat D2) (nat H2) (nat I2) (nat S2)"
    using N
  proof (rule stamp_less)
    show "nat Y2 < 10 ^ 4" "nat (M2 + 1) < 10 ^ 2" "nat D2 < 10 ^ 2" "nat H2 < 10 ^ 2"
      "nat I2 < 10 ^ 2" "nat S2 < 10 ^ 2"
      using b2 by simp_all
  qed
  then have "backupSuffix t1 < backupSuffix t2"
    unfolding f1 f2 using backupSuffix_stamp [OF y1] backupSuffix_stamp [OF y2] by simp
  then show ?thesis
    by (simp add: backupDirLeaf_def less_same_prefix)
qed

theorem snapshot_names_sort_chronologically_witness:
  "(1763926245123 :: int) + 1000 \<le> 1763926246123 \<and>
   backupDirLeaf None 1763926245123 < backupDirLeaf None 1763926246123 \<and>
   backupDirLeaf (Some ''WEB-'') 1763926245123 < backupDirLeaf (Some ''WEB-'') 1767225600000"
proof -
  have a: "(1763926245123 :: int) + 1000 \<le> 1763926246123"
    and b: "(1763926245123 :: int) + 1000 \<le> 1767225600000"
    and c: "- 62167219200000 \<le> (1763926245123 :: int)"
    and d: "(1763926246123 :: int) < 253402300800000" "(1767225600000 :: int) < 253402300800000"
    by simp_all
  from snapshot_names_sort_chronologically [OF a c d(1), of None]
    snapshot_names_sort_chronologically [OF b c d(2), of "Some ''WEB-''"] a
  show ?thesis by simp
qed

end
